theory Spec2Isabelle
  imports Complex_Main
begin

section \<open>JavaScript numbers\<close>

text \<open>
  The engine of \<^verbatim>\<open>src/app/components/BESSCashFlowModel.tsx\<close> computes on JavaScript
  numbers. A number is modelled as a rational, negative zero, one of the two infinities,
  or NaN. \<open>Fin 0\<close> is positive zero. The special-value rules of the arithmetic
  (division by zero, \<open>0/0\<close>, \<open>Infinity - Infinity\<close>, the sign of a zero result, NaN
  in comparisons) are those of ECMAScript. The one idealisation is that an operation on
  finite operands returns the exact rational result: the rounding of a result to the
  nearest double, overflow and underflow are not modelled, and a decimal literal of the
  source denotes its decimal value.
\<close>

datatype jsnum = Fin rat | NegZero | PosInf | NegInf | NaN

fun val :: "jsnum \<Rightarrow> rat" where
  "val (Fin x) = x"
| "val NegZero = 0"
| "val PosInf = 0"
| "val NegInf = 0"
| "val NaN = 0"

fun isFinite :: "jsnum \<Rightarrow> bool" where
  "isFinite (Fin x) = True"
| "isFinite NegZero = True"
| "isFinite PosInf = False"
| "isFinite NegInf = False"
| "isFinite NaN = False"

fun is_zero :: "jsnum \<Rightarrow> bool" where
  "is_zero (Fin x) = (x = 0)"
| "is_zero NegZero = True"
| "is_zero PosInf = False"
| "is_zero NegInf = False"
| "is_zero NaN = False"

fun is_inf :: "jsnum \<Rightarrow> bool" where
  "is_inf (Fin x) = False"
| "is_inf NegZero = False"
| "is_inf PosInf = True"
| "is_inf NegInf = True"
| "is_inf NaN = False"

fun signbit :: "jsnum \<Rightarrow> bool" where
  "signbit (Fin x) = (x < 0)"
| "signbit NegZero = True"
| "signbit PosInf = False"
| "signbit NegInf = True"
| "signbit NaN = False"

definition signed_zero :: "bool \<Rightarrow> jsnum" where
  "signed_zero s = (if s then NegZero else Fin 0)"

definition signed_inf :: "bool \<Rightarrow> jsnum" where
  "signed_inf s = (if s then NegInf else PosInf)"

text \<open>Unary minus.\<close>

fun js_neg :: "jsnum \<Rightarrow> jsnum" where
  "js_neg (Fin x) = (if x = 0 then NegZero else Fin (- x))"
| "js_neg NegZero = Fin 0"
| "js_neg PosInf = NegInf"
| "js_neg NegInf = PosInf"
| "js_neg NaN = NaN"

text \<open>Addition: the sum of two zeros is negative only when both are; an exact sum
  that cancels is positive zero.\<close>

fun js_add :: "jsnum \<Rightarrow> jsnum \<Rightarrow> jsnum" where
  "js_add NaN b = NaN"
| "js_add a NaN = NaN"
| "js_add PosInf NegInf = NaN"
| "js_add NegInf PosInf = NaN"
| "js_add PosInf b = PosInf"
| "js_add a PosInf = PosInf"
| "js_add NegInf b = NegInf"
| "js_add a NegInf = NegInf"
| "js_add NegZero NegZero = NegZero"
| "js_add NegZero (Fin y) = Fin y"
| "js_add (Fin x) NegZero = Fin x"
| "js_add (Fin x) (Fin y) = Fin (x + y)"

definition js_sub :: "jsnum \<Rightarrow> jsnum \<Rightarrow> jsnum" where
  "js_sub a b = js_add a (js_neg b)"

definition js_mul :: "jsnum \<Rightarrow> jsnum \<Rightarrow> jsnum" where
  "js_mul a b =
     (if a = NaN \<or> b = NaN \<or> (is_zero a \<and> is_inf b) \<or> (is_inf a \<and> is_zero b) then NaN
      else if is_inf a \<or> is_inf b then signed_inf (signbit a \<noteq> signbit b)
      else if is_zero a \<or> is_zero b then signed_zero (signbit a \<noteq> signbit b)
      else Fin (val a * val b))"

definition js_div :: "jsnum \<Rightarrow> jsnum \<Rightarrow> jsnum" where
  "js_div a b =
     (if a = NaN \<or> b = NaN \<or> (is_zero a \<and> is_zero b) \<or> (is_inf a \<and> is_inf b) then NaN
      else if is_inf a \<or> is_zero b then signed_inf (signbit a \<noteq> signbit b)
      else if is_zero a \<or> is_inf b then signed_zero (signbit a \<noteq> signbit b)
      else Fin (val a / val b))"

text \<open>\<open>Math.pow\<close> with an integral exponent (every exponent of the source is one: a
  year index, its negation, or the loan tenor). \<open>Math.pow(x, 0)\<close> is 1 for every \<open>x\<close>,
  NaN included.\<close>

fun pow_nat :: "jsnum \<Rightarrow> nat \<Rightarrow> jsnum" where
  "pow_nat b 0 = Fin 1"
| "pow_nat b (Suc n) = js_mul b (pow_nat b n)"

definition Math_pow :: "jsnum \<Rightarrow> int \<Rightarrow> jsnum" where
  "Math_pow b e =
     (if 0 \<le> e then pow_nat b (nat e) else js_div (Fin 1) (pow_nat b (nat (- e))))"

fun Math_abs :: "jsnum \<Rightarrow> jsnum" where
  "Math_abs (Fin x) = Fin \<bar>x\<bar>"
| "Math_abs NegZero = Fin 0"
| "Math_abs PosInf = PosInf"
| "Math_abs NegInf = PosInf"
| "Math_abs NaN = NaN"

text \<open>\<open>Math.round\<close> rounds half up, \<open>floor (x + 1/2)\<close>, and returns negative zero
  for \<open>-1/2 \<le> x < 0\<close>.\<close>

fun Math_round :: "jsnum \<Rightarrow> jsnum" where
  "Math_round (Fin x) =
     (if - (1 / 2) \<le> x \<and> x < 0 then NegZero else Fin (of_int \<lfloor>x + 1 / 2\<rfloor>))"
| "Math_round NegZero = NegZero"
| "Math_round PosInf = PosInf"
| "Math_round NegInf = NegInf"
| "Math_round NaN = NaN"

text \<open>The comparisons \<open><\<close>, \<open>>\<close>, \<open><=\<close> and \<open>===\<close>: false whenever an operand
  is NaN; the two zeros are equal.\<close>

fun js_lt :: "jsnum \<Rightarrow> jsnum \<Rightarrow> bool" where
  "js_lt NaN b = False"
| "js_lt a NaN = False"
| "js_lt PosInf b = False"
| "js_lt a PosInf = True"
| "js_lt a NegInf = False"
| "js_lt NegInf b = True"
| "js_lt a b = (val a < val b)"

definition js_gt :: "jsnum \<Rightarrow> jsnum \<Rightarrow> bool" where
  "js_gt a b = js_lt b a"

definition js_le :: "jsnum \<Rightarrow> jsnum \<Rightarrow> bool" where
  "js_le a b = (a \<noteq> NaN \<and> b \<noteq> NaN \<and> \<not> js_lt b a)"

definition js_eq :: "jsnum \<Rightarrow> jsnum \<Rightarrow> bool" where
  "js_eq a b = (a \<noteq> NaN \<and> b \<noteq> NaN \<and> (a = b \<or> (is_zero a \<and> is_zero b)))"

section \<open>Component state and constants\<close>

datatype ScenarioKey = base | downside | upside

text \<open>The nine \<open>useState\<close> cells the calculations read. \<open>loanTenor\<close> is an
  integer: it has no setter in the component and the data model declares it integral.\<close>

record inputs =
  bessSize :: jsnum
  capexPerKwh :: jsnum
  revenueScenario :: ScenarioKey
  discountRate :: jsnum
  debtRatio :: jsnum
  interestRate :: jsnum
  loanTenor :: int
  includeAggregatorFee :: bool
  aggregatorFeePercent :: jsnum

definition PROJECT_LIFE :: nat where
  "PROJECT_LIFE = 12"

definition OM_COST_RATE :: jsnum where
  "OM_COST_RATE = Fin 0.015"

definition DEGRADATION_RATE :: jsnum where
  "DEGRADATION_RATE = Fin 0.02"

definition POWER_TO_ENERGY :: jsnum where
  "POWER_TO_ENERGY = Fin 0.5"

definition DISCHARGE_EFF :: jsnum where
  "DISCHARGE_EFF = Fin 0.96"

fun REVENUE_PER_KW :: "ScenarioKey \<Rightarrow> jsnum" where
  "REVENUE_PER_KW downside = Fin 245.57"
| "REVENUE_PER_KW base = Fin 359.77"
| "REVENUE_PER_KW upside = Fin 615.47"

text \<open>A loop counter (\<open>yr\<close>, \<open>i\<close>, \<open>idx\<close>) is a natural number; \<open>num\<close> is its value
  as a JavaScript number.\<close>

definition num :: "nat \<Rightarrow> jsnum" where
  "num n = Fin (of_nat n)"

section \<open>The quantities derived before the year loop\<close>

text \<open>Lines 109 to 126 of \<open>calc\<close> and lines 203 to 222 of \<open>sensitivityData\<close> are the
  same statements; the second reads the swept value \<open>cpx\<close> where the first reads
  \<open>capexPerKwh\<close>. Each definition below is one of these statements, with the capital
  cost per kWh as the parameter \<open>cpx\<close>.\<close>

definition feeRate_of :: "inputs \<Rightarrow> jsnum" where
  "feeRate_of inp =
     (if includeAggregatorFee inp then js_div (aggregatorFeePercent inp) (Fin 100) else Fin 0)"

definition powerKw_of :: "inputs \<Rightarrow> jsnum" where
  "powerKw_of inp = js_mul (bessSize inp) POWER_TO_ENERGY"

definition totalCapex_of :: "inputs \<Rightarrow> jsnum \<Rightarrow> jsnum" where
  "totalCapex_of inp cpx = js_mul (bessSize inp) cpx"

definition annualOm_of :: "inputs \<Rightarrow> jsnum \<Rightarrow> jsnum" where
  "annualOm_of inp cpx = js_mul (totalCapex_of inp cpx) OM_COST_RATE"

definition grossRevenue_of :: "inputs \<Rightarrow> jsnum" where
  "grossRevenue_of inp =
     js_mul (js_mul (powerKw_of inp) (REVENUE_PER_KW (revenueScenario inp))) DISCHARGE_EFF"

definition feeAnnual_of :: "inputs \<Rightarrow> jsnum" where
  "feeAnnual_of inp = js_mul (grossRevenue_of inp) (feeRate_of inp)"

definition netRevenue_of :: "inputs \<Rightarrow> jsnum" where
  "netRevenue_of inp = js_sub (grossRevenue_of inp) (feeAnnual_of inp)"

definition debt_of :: "inputs \<Rightarrow> jsnum \<Rightarrow> jsnum" where
  "debt_of inp cpx = js_mul (totalCapex_of inp cpx) (debtRatio inp)"

definition equity_of :: "inputs \<Rightarrow> jsnum \<Rightarrow> jsnum" where
  "equity_of inp cpx = js_sub (totalCapex_of inp cpx) (debt_of inp cpx)"

text \<open>The debt-service block: \<open>annualDebtPmt\<close> from \<open>debt\<close>, \<open>interestRate\<close> and
  \<open>loanTenor\<close>.\<close>

definition annualDebtPmt_for :: "jsnum \<Rightarrow> jsnum \<Rightarrow> int \<Rightarrow> jsnum" where
  "annualDebtPmt_for debt rate tenor =
     (if js_gt debt (Fin 0) \<and> 0 < tenor
      then (if js_eq rate (Fin 0)
            then js_div debt (Fin (of_int tenor))
            else js_div (js_mul (js_mul debt rate) (Math_pow (js_add (Fin 1) rate) tenor))
                        (js_sub (Math_pow (js_add (Fin 1) rate) tenor) (Fin 1)))
      else Fin 0)"

definition annualDebtPmt_of :: "inputs \<Rightarrow> jsnum \<Rightarrow> jsnum" where
  "annualDebtPmt_of inp cpx =
     annualDebtPmt_for (debt_of inp cpx) (interestRate inp) (loanTenor inp)"

section \<open>The body of the year loop\<close>

text \<open>Lines 134 to 143 of \<open>calc\<close> and lines 227 to 236 of \<open>sensitivityData\<close> are again
  the same statements; each definition is one of them, as a function of the year.\<close>

definition degFactor_at :: "nat \<Rightarrow> jsnum" where
  "degFactor_at yr =
     (if yr = 0 then Fin 0 else Math_pow (js_sub (Fin 1) DEGRADATION_RATE) (int yr - 1))"

definition gRev_at :: "inputs \<Rightarrow> nat \<Rightarrow> jsnum" where
  "gRev_at inp yr = (if yr = 0 then Fin 0 else js_mul (grossRevenue_of inp) (degFactor_at yr))"

definition fee_at :: "inputs \<Rightarrow> nat \<Rightarrow> jsnum" where
  "fee_at inp yr = (if yr = 0 then Fin 0 else js_mul (gRev_at inp yr) (feeRate_of inp))"

definition rev_at :: "inputs \<Rightarrow> nat \<Rightarrow> jsnum" where
  "rev_at inp yr = (if yr = 0 then Fin 0 else js_sub (gRev_at inp yr) (fee_at inp yr))"

definition opex_at :: "inputs \<Rightarrow> jsnum \<Rightarrow> nat \<Rightarrow> jsnum" where
  "opex_at inp cpx yr = (if yr = 0 then Fin 0 else annualOm_of inp cpx)"

definition debtSvc_at :: "inputs \<Rightarrow> jsnum \<Rightarrow> nat \<Rightarrow> jsnum" where
  "debtSvc_at inp cpx yr =
     (if 0 < yr \<and> int yr \<le> loanTenor inp then annualDebtPmt_of inp cpx else Fin 0)"

definition ebitda_at :: "inputs \<Rightarrow> jsnum \<Rightarrow> nat \<Rightarrow> jsnum" where
  "ebitda_at inp cpx yr = js_sub (rev_at inp yr) (opex_at inp cpx yr)"

definition cashEq_at :: "inputs \<Rightarrow> jsnum \<Rightarrow> nat \<Rightarrow> jsnum" where
  "cashEq_at inp cpx yr = js_sub (ebitda_at inp cpx yr) (debtSvc_at inp cpx yr)"

definition initialInv_at :: "inputs \<Rightarrow> jsnum \<Rightarrow> nat \<Rightarrow> jsnum" where
  "initialInv_at inp cpx yr = (if yr = 0 then js_neg (equity_of inp cpx) else Fin 0)"

definition netCF_at :: "inputs \<Rightarrow> jsnum \<Rightarrow> nat \<Rightarrow> jsnum" where
  "netCF_at inp cpx yr = js_add (cashEq_at inp cpx yr) (initialInv_at inp cpx yr)"

section \<open>calcIRR\<close>

text \<open>The \<open>reduce\<close> of line 272: the flows are visited with their index, from the
  accumulator 0.\<close>

fun irr_npv :: "jsnum \<Rightarrow> nat \<Rightarrow> jsnum \<Rightarrow> jsnum list \<Rightarrow> jsnum" where
  "irr_npv irr idx acc [] = acc"
| "irr_npv irr idx acc (cf # cfs) =
     irr_npv irr (Suc idx) (js_add acc (js_div cf (Math_pow (js_add (Fin 1) irr) (int idx)))) cfs"

text \<open>The \<open>for\<close> loop of lines 271 to 280; the first argument counts the iterations
  that remain of the hundred.\<close>

fun irr_loop :: "nat \<Rightarrow> jsnum list \<Rightarrow> jsnum \<Rightarrow> jsnum \<Rightarrow> jsnum" where
  "irr_loop 0 cashFlows irr step = irr"
| "irr_loop (Suc k) cashFlows irr step =
     (let npv = irr_npv irr 0 (Fin 0) cashFlows
      in if js_lt (Math_abs npv) (Fin 0.01) then irr
         else if js_gt npv (Fin 0) then irr_loop k cashFlows (js_add irr step) step
         else irr_loop k cashFlows (js_sub irr step) (js_div step (Fin 2)))"

definition calcIRR :: "jsnum list \<Rightarrow> jsnum" where
  "calcIRR cashFlows = irr_loop 100 cashFlows (Fin 0.1) (Fin 0.1)"

section \<open>calc\<close>

record flow_row =
  year :: nat
  revenue :: jsnum
  aggregatorFee :: jsnum
  opex :: jsnum
  ebitda :: jsnum
  debtService :: jsnum
  netCashFlow :: jsnum
  cumulativeCashFlow :: jsnum

text \<open>The state the year loop of \<open>calc\<close> updates: \<open>flows\<close>, \<open>cumulative\<close>, \<open>npv\<close>.\<close>

type_synonym loop_state = "flow_row list \<times> jsnum \<times> jsnum"

definition calc_step :: "inputs \<Rightarrow> nat \<Rightarrow> loop_state \<Rightarrow> loop_state" where
  "calc_step inp yr st =
     (case st of (flows, cumulative, npv) \<Rightarrow>
        (let cpx = capexPerKwh inp;
             netCF = netCF_at inp cpx yr;
             cumulative' = js_add cumulative netCF;
             disc = Math_pow (js_add (Fin 1) (discountRate inp)) (- int yr);
             npv' = js_add npv (js_mul netCF disc)
         in (flows @
               [\<lparr>year = yr,
                 revenue = Math_round (rev_at inp yr),
                 aggregatorFee = Math_round (fee_at inp yr),
                 opex = Math_round (opex_at inp cpx yr),
                 ebitda = Math_round (ebitda_at inp cpx yr),
                 debtService = Math_round (debtSvc_at inp cpx yr),
                 netCashFlow = Math_round netCF,
                 cumulativeCashFlow = Math_round cumulative'\<rparr>],
             cumulative', npv')))"

definition calc_loop :: "inputs \<Rightarrow> loop_state" where
  "calc_loop inp =
     fold (calc_step inp) [0..<Suc PROJECT_LIFE]
       ([], Fin 0, js_neg (equity_of inp (capexPerKwh inp)))"

text \<open>The payback loop of lines 162 to 170: the first index from 1 whose rounded
  cumulative cash flow is positive, if there is one.\<close>

definition calc_payback :: "flow_row list \<Rightarrow> jsnum" where
  "calc_payback flows =
     (case find (\<lambda>i. js_gt (cumulativeCashFlow (flows ! i)) (Fin 0)) [1..<length flows] of
        None \<Rightarrow> num PROJECT_LIFE
      | Some i \<Rightarrow>
          (let prev = cumulativeCashFlow (flows ! (i - 1));
               frac = js_div (js_neg prev) (netCashFlow (flows ! i))
           in js_add (js_sub (num i) (Fin 1)) frac))"

text \<open>The object \<open>calc\<close> returns. \<open>ebitdaMarginYear1\<close> holds the number that the source
  formats with \<open>toFixed(1)\<close>; the formatting is not modelled (it prints NaN and the
  infinities as such).\<close>

record calc_result =
  powerKw :: jsnum
  totalCapex :: jsnum
  equity :: jsnum
  debt :: jsnum
  annualOm :: jsnum
  grossRevenue :: jsnum
  feeAnnual :: jsnum
  netRevenue :: jsnum
  annualDebtPmt :: jsnum
  flows :: "flow_row list"
  npv :: jsnum
  irr :: jsnum
  payback :: jsnum
  ebitdaMarginYear1 :: jsnum

definition calc :: "inputs \<Rightarrow> calc_result" where
  "calc inp =
     (let cpx = capexPerKwh inp;
          fl = fst (calc_loop inp)
      in \<lparr>powerKw = powerKw_of inp,
          totalCapex = totalCapex_of inp cpx,
          equity = equity_of inp cpx,
          debt = debt_of inp cpx,
          annualOm = annualOm_of inp cpx,
          grossRevenue = grossRevenue_of inp,
          feeAnnual = feeAnnual_of inp,
          netRevenue = netRevenue_of inp,
          annualDebtPmt = annualDebtPmt_of inp cpx,
          flows = fl,
          npv = snd (snd (calc_loop inp)),
          irr = calcIRR (map netCashFlow fl),
          payback = calc_payback fl,
          ebitdaMarginYear1 =
            js_mul (js_div (js_sub (netRevenue_of inp) (annualOm_of inp cpx)) (netRevenue_of inp))
                   (Fin 100)\<rparr>)"

section \<open>sensitivityData\<close>

text \<open>The fields of a \<open>SensitivityPoint\<close> are \<open>capex\<close>, \<open>payback\<close> and \<open>irr\<close> in the
  source; the last two carry a prefix here, the names being taken by \<open>calc_result\<close>.\<close>

record SensitivityPoint =
  capex :: jsnum
  sp_payback :: jsnum
  sp_irr :: jsnum

definition CAPEX_VALUES :: "jsnum list" where
  "CAPEX_VALUES = [Fin 300, Fin 325, Fin 350, Fin 375, Fin 400]"

definition sens_flows :: "inputs \<Rightarrow> jsnum \<Rightarrow> jsnum list" where
  "sens_flows inp cpx = map (netCF_at inp cpx) [0..<Suc PROJECT_LIFE]"

text \<open>The payback loop of lines 243 to 253, over the flows from index \<open>i\<close> on.\<close>

fun sens_payback_loop :: "nat \<Rightarrow> jsnum \<Rightarrow> jsnum list \<Rightarrow> jsnum" where
  "sens_payback_loop i cumulative [] = num PROJECT_LIFE"
| "sens_payback_loop i cumulative (f # fs) =
     (let cumulative' = js_add cumulative f
      in if 0 < i \<and> js_gt cumulative' (Fin 0)
         then (let prevCum = js_sub cumulative' f;
                   frac = js_div (js_neg prevCum) f
               in js_add (js_sub (num i) (Fin 1)) frac)
         else sens_payback_loop (Suc i) cumulative' fs)"

definition sens_point :: "inputs \<Rightarrow> jsnum \<Rightarrow> SensitivityPoint" where
  "sens_point inp cpx =
     (let flows = sens_flows inp cpx
      in \<lparr>capex = cpx,
          sp_payback = sens_payback_loop 0 (Fin 0) flows,
          sp_irr = js_mul (calcIRR flows) (Fin 100)\<rparr>)"

definition sensitivityData :: "inputs \<Rightarrow> SensitivityPoint list" where
  "sensitivityData inp = map (sens_point inp) CAPEX_VALUES"

text \<open>The initial state of the component.\<close>

definition default_inputs :: inputs where
  "default_inputs =
     \<lparr>bessSize = Fin 250, capexPerKwh = Fin 350, revenueScenario = base,
      discountRate = Fin 0.08, debtRatio = Fin 0, interestRate = Fin 0.08, loanTenor = 7,
      includeAggregatorFee = False, aggregatorFeePercent = Fin 22\<rparr>"

text \<open>Further input sets: a storage of 0.002 kWh at no capital cost, a storage of
  1 kWh at a capital cost of 1 per kWh financed half by debt, a storage of zero
  capacity, the initial storage financed half by debt, a loan tenor of zero years, a
  debt ratio of 100%, and an aggregator fee of 100%; every other field keeps its initial
  value.\<close>

definition tiny_inputs :: inputs where
  "tiny_inputs = default_inputs\<lparr>bessSize := Fin (1 / 500), capexPerKwh := Fin 0\<rparr>"

definition small_loan_inputs :: inputs where
  "small_loan_inputs =
     default_inputs\<lparr>bessSize := Fin 1, capexPerKwh := Fin 1, debtRatio := Fin (1 / 2)\<rparr>"

definition zero_capacity_inputs :: inputs where
  "zero_capacity_inputs = default_inputs\<lparr>bessSize := Fin 0\<rparr>"

definition half_debt_inputs :: inputs where
  "half_debt_inputs = default_inputs\<lparr>debtRatio := Fin (1 / 2)\<rparr>"

definition zero_tenor_inputs :: inputs where
  "zero_tenor_inputs = default_inputs\<lparr>debtRatio := Fin (1 / 2), loanTenor := 0\<rparr>"

definition full_debt_inputs :: inputs where
  "full_debt_inputs = default_inputs\<lparr>debtRatio := Fin 1\<rparr>"

definition full_fee_inputs :: inputs where
  "full_fee_inputs =
     default_inputs\<lparr>includeAggregatorFee := True, aggregatorFeePercent := Fin 100\<rparr>"

section \<open>The loops in closed form\<close>

text \<open>The value of \<open>cumulative\<close> and of \<open>npv\<close> on entry to year \<open>yr\<close> of the loop
  of \<open>calc\<close>, and the row the loop pushes for that year.\<close>

fun cumulative_upto :: "inputs \<Rightarrow> nat \<Rightarrow> jsnum" where
  "cumulative_upto inp 0 = Fin 0"
| "cumulative_upto inp (Suc yr) =
     js_add (cumulative_upto inp yr) (netCF_at inp (capexPerKwh inp) yr)"

fun npv_upto :: "inputs \<Rightarrow> nat \<Rightarrow> jsnum" where
  "npv_upto inp 0 = js_neg (equity_of inp (capexPerKwh inp))"
| "npv_upto inp (Suc yr) =
     js_add (npv_upto inp yr)
       (js_mul (netCF_at inp (capexPerKwh inp) yr)
          (Math_pow (js_add (Fin 1) (discountRate inp)) (- int yr)))"

definition row_at :: "inputs \<Rightarrow> nat \<Rightarrow> flow_row" where
  "row_at inp yr =
     \<lparr>year = yr,
      revenue = Math_round (rev_at inp yr),
      aggregatorFee = Math_round (fee_at inp yr),
      opex = Math_round (opex_at inp (capexPerKwh inp) yr),
      ebitda = Math_round (ebitda_at inp (capexPerKwh inp) yr),
      debtService = Math_round (debtSvc_at inp (capexPerKwh inp) yr),
      netCashFlow = Math_round (netCF_at inp (capexPerKwh inp) yr),
      cumulativeCashFlow = Math_round (cumulative_upto inp (Suc yr))\<rparr>"

text \<open>The three branches of one iteration of \<open>calcIRR\<close>, as a function of the net
  present value \<open>v\<close> of the trial.\<close>

definition irr_branch :: "nat \<Rightarrow> jsnum list \<Rightarrow> jsnum \<Rightarrow> jsnum \<Rightarrow> jsnum \<Rightarrow> jsnum" where
  "irr_branch k cfs r s v =
     (if js_lt (Math_abs v) (Fin 0.01) then r
      else if js_gt v (Fin 0) then irr_loop k cfs (js_add r s) s
      else irr_loop k cfs (js_sub r s) (js_div s (Fin 2)))"

section \<open>Input ranges\<close>

text \<open>\<open>finite_inputs\<close>: every numeric input is a finite number. \<open>valid_inputs\<close>: the
  ranges that the data model gives the inputs, namely a capacity above 0, a capital cost
  and an interest rate that are not negative, a debt ratio in \<open>[0, 1)\<close>, a loan tenor
  that is not negative and an aggregator fee in \<open>[0, 100]\<close>. The level payment per unit
  of principal is \<open>payment_factor\<close>.\<close>

definition finite_inputs :: "inputs \<Rightarrow> bool" where
  "finite_inputs inp \<longleftrightarrow>
     isFinite (bessSize inp) \<and> isFinite (capexPerKwh inp) \<and> isFinite (discountRate inp) \<and>
     isFinite (debtRatio inp) \<and> isFinite (interestRate inp) \<and>
     isFinite (aggregatorFeePercent inp)"


definition payment_factor :: "rat \<Rightarrow> int \<Rightarrow> rat" where
  "payment_factor r n =
     (if r = 0 then 1 / of_int n else r * (1 + r) ^ nat n / ((1 + r) ^ nat n - 1))"

section \<open>The metrics as the specification words them\<close>

text \<open>The net present value as the sum, over the years 0 to \<open>PROJECT_LIFE\<close>, of
  the net cash flow of the year discounted to year 0.\<close>

fun discounted_sum :: "inputs \<Rightarrow> nat \<Rightarrow> jsnum" where
  "discounted_sum inp 0 = Fin 0"
| "discounted_sum inp (Suc yr) =
     js_add (discounted_sum inp yr)
       (js_mul (netCF_at inp (capexPerKwh inp) yr)
          (Math_pow (js_add (Fin 1) (discountRate inp)) (- int yr)))"

definition spec_npv :: "inputs \<Rightarrow> jsnum" where
  "spec_npv inp = discounted_sum inp (Suc PROJECT_LIFE)"

text \<open>The rate of return and the payback computed on the unrounded net cash flows and
  the unrounded cumulative sums: the row of a year with these two fields unrounded, and
  the two loops of \<open>calc\<close> run on such rows.\<close>

definition unrounded_row :: "inputs \<Rightarrow> nat \<Rightarrow> flow_row" where
  "unrounded_row inp yr =
     (row_at inp yr)\<lparr>netCashFlow := netCF_at inp (capexPerKwh inp) yr,
                     cumulativeCashFlow := cumulative_upto inp (Suc yr)\<rparr>"

definition spec_irr :: "inputs \<Rightarrow> jsnum" where
  "spec_irr inp = calcIRR (map (netCF_at inp (capexPerKwh inp)) [0..<Suc PROJECT_LIFE])"

definition spec_payback :: "inputs \<Rightarrow> jsnum" where
  "spec_payback inp = calc_payback (map (unrounded_row inp) [0..<Suc PROJECT_LIFE])"

section \<open>Arithmetic on finite numbers\<close>

text \<open>On finite operands the operations are those of the rationals, read through
  \<open>val\<close>; a division needs a divisor other than zero.\<close>

lemma Fin_val: "isFinite a \<Longrightarrow> val a \<noteq> 0 \<Longrightarrow> a = Fin (val a)"
  by (cases a) simp_all

lemma fin_neg [simp]: "isFinite a \<Longrightarrow> isFinite (js_neg a)"
  by (cases a) simp_all

lemma val_neg [simp]: "isFinite a \<Longrightarrow> val (js_neg a) = - val a"
  by (cases a) simp_all

lemma fin_add [simp]: "isFinite a \<Longrightarrow> isFinite b \<Longrightarrow> isFinite (js_add a b)"
  by (cases a; cases b) simp_all

lemma val_add [simp]: "isFinite a \<Longrightarrow> isFinite b \<Longrightarrow> val (js_add a b) = val a + val b"
  by (cases a; cases b) simp_all

lemma fin_sub [simp]: "isFinite a \<Longrightarrow> isFinite b \<Longrightarrow> isFinite (js_sub a b)"
  by (simp add: js_sub_def)

lemma val_sub [simp]: "isFinite a \<Longrightarrow> isFinite b \<Longrightarrow> val (js_sub a b) = val a - val b"
  by (simp add: js_sub_def)

lemma fin_mul [simp]: "isFinite a \<Longrightarrow> isFinite b \<Longrightarrow> isFinite (js_mul a b)"
  by (cases a; cases b) (simp_all add: js_mul_def signed_zero_def)

lemma val_mul [simp]: "isFinite a \<Longrightarrow> isFinite b \<Longrightarrow> val (js_mul a b) = val a * val b"
  by (cases a; cases b) (simp_all add: js_mul_def signed_zero_def)

lemma fin_div [simp]:
  "isFinite a \<Longrightarrow> isFinite b \<Longrightarrow> val b \<noteq> 0 \<Longrightarrow> isFinite (js_div a b)"
  by (cases a; cases b) (simp_all add: js_div_def signed_zero_def)

lemma val_div [simp]:
  "isFinite a \<Longrightarrow> isFinite b \<Longrightarrow> val b \<noteq> 0 \<Longrightarrow> val (js_div a b) = val a / val b"
  by (cases a; cases b) (simp_all add: js_div_def signed_zero_def)

lemma fin_pow_nat [simp]: "isFinite b \<Longrightarrow> isFinite (pow_nat b n)"
  by (induction n) simp_all

lemma val_pow_nat [simp]: "isFinite b \<Longrightarrow> val (pow_nat b n) = val b ^ n"
  by (induction n) simp_all

lemma fin_Math_pow [simp]:
  "isFinite b \<Longrightarrow> 0 \<le> e \<or> val b \<noteq> 0 \<Longrightarrow> isFinite (Math_pow b e)"
  by (auto simp: Math_pow_def)

lemma val_Math_pow [simp]:
  "isFinite b \<Longrightarrow> 0 \<le> e \<or> val b \<noteq> 0 \<Longrightarrow> val (Math_pow b e) = val b powi e"
  by (auto simp: Math_pow_def power_int_def field_simps)

lemma fin_round [simp]: "isFinite a \<Longrightarrow> isFinite (Math_round a)"
  by (cases a) simp_all

lemma val_round [simp]: "isFinite a \<Longrightarrow> val (Math_round a) = of_int \<lfloor>val a + 1 / 2\<rfloor>"
  by (cases a) (auto simp: floor_eq_iff)

lemma fin_abs [simp]: "isFinite a \<Longrightarrow> isFinite (Math_abs a)"
  by (cases a) simp_all

lemma lt_fin [simp]: "isFinite a \<Longrightarrow> isFinite b \<Longrightarrow> js_lt a b \<longleftrightarrow> val a < val b"
  by (cases a; cases b; simp)

lemma gt_fin [simp]: "isFinite a \<Longrightarrow> isFinite b \<Longrightarrow> js_gt a b \<longleftrightarrow> val b < val a"
  by (simp add: js_gt_def)

lemma le_fin [simp]: "isFinite a \<Longrightarrow> isFinite b \<Longrightarrow> js_le a b \<longleftrightarrow> val a \<le> val b"
  by (cases a; cases b; auto simp add: js_le_def)

lemma eq_fin [simp]: "isFinite a \<Longrightarrow> isFinite b \<Longrightarrow> js_eq a b \<longleftrightarrow> val a = val b"
  by (cases a; cases b; auto simp add: js_eq_def)

lemma fin_num [simp]: "isFinite (num n)"
  by (simp add: num_def)

lemma val_num [simp]: "val (num n) = of_nat n"
  by (simp add: num_def)

lemma add_zero_left: "is_zero z \<Longrightarrow> js_add (Fin 0) z = Fin 0"
  by (cases z) simp_all

lemma add_zero_idem: "js_add (Fin 0) (js_add (Fin 0) a) = js_add (Fin 0) a"
  by (cases a) simp_all

lemma zero_div: "is_zero a \<Longrightarrow> isFinite b \<Longrightarrow> val b \<noteq> 0 \<Longrightarrow> is_zero (js_div a b)"
  by (cases a; cases b; simp add: js_div_def signed_zero_def)

lemma zero_div_zero: "is_zero a \<Longrightarrow> is_zero b \<Longrightarrow> js_div a b = NaN"
  by (simp add: js_div_def)

lemma div_zero_cases:
  assumes "js_le a (Fin 0)" and "is_zero z"
  shows "js_div (js_neg a) z = (if is_zero a then NaN else signed_inf (signbit z))"
  using assms by (cases a; cases z; auto simp: js_le_def js_div_def signed_inf_def)

lemma add_nonfinite:
  "js_add (Fin x) NaN = NaN" "js_add (Fin x) (signed_inf s) = signed_inf s"
  by (simp_all add: signed_inf_def)

text \<open>The floor of a half, for the evaluation of \<open>Math_round\<close>.\<close>

lemma floor_half [simp]: "\<lfloor>1 / 2 :: rat\<rfloor> = 0"
  by (simp add: floor_eq_iff)

section \<open>Evaluation on numerals\<close>

text \<open>Rewrite rules that compute the operations on rational numerals.\<close>

lemma js_mul_Fin: "js_mul (Fin x) (Fin y) =
    (if x = 0 \<or> y = 0 then signed_zero ((x < 0) \<noteq> (y < 0)) else Fin (x * y))"
  by (simp add: js_mul_def)

lemma js_div_Fin: "js_div (Fin x) (Fin y) =
    (if y = 0 then (if x = 0 then NaN else signed_inf (x < 0))
     else if x = 0 then signed_zero (y < 0) else Fin (x / y))"
  by (simp add: js_div_def)

lemma pow_nat_Fin: "pow_nat (Fin x) n = Fin (x ^ n)"
  by (induction n) (auto simp: js_mul_Fin signed_zero_def)

lemma Math_pow_Fin: "x \<noteq> 0 \<Longrightarrow> Math_pow (Fin x) e =
    (if 0 \<le> e then Fin (x ^ nat e) else Fin (1 / x ^ nat (- e)))"
  by (simp add: Math_pow_def pow_nat_Fin js_div_Fin)

lemma floor_rat_numeral:
  "\<lfloor>numeral a / numeral b :: rat\<rfloor> = numeral a div numeral b"
  "\<lfloor>- (numeral a / numeral b) :: rat\<rfloor> = - numeral a div numeral b"
  by (metis floor_divide_of_int_eq of_int_numeral,
      metis divide_minus_left floor_divide_of_int_eq of_int_neg_numeral of_int_numeral)

lemmas model_defs = feeRate_of_def powerKw_of_def totalCapex_of_def annualOm_of_def
  grossRevenue_of_def feeAnnual_of_def netRevenue_of_def debt_of_def equity_of_def
  annualDebtPmt_of_def annualDebtPmt_for_def OM_COST_RATE_def DEGRADATION_RATE_def
  POWER_TO_ENERGY_def DISCHARGE_EFF_def degFactor_at_def gRev_at_def fee_at_def rev_at_def
  opex_at_def debtSvc_at_def ebitda_at_def cashEq_at_def initialInv_at_def netCF_at_def

lemmas js_eval = js_mul_Fin js_div_Fin Math_pow_Fin js_sub_def js_gt_def js_eq_def js_le_def
  signed_zero_def signed_inf_def num_def

lemma Suc_Suc_0: "Suc (Suc 0) = 2"
  by simp

lemma upt_1_3: "[Suc 0..<3] = [Suc 0, 2]"
  by (simp add: upt_rec)

section \<open>The loop of calc in closed form\<close>

lemma calc_fold:
  "fold (calc_step inp) [0..<n] ([], Fin 0, js_neg (equity_of inp (capexPerKwh inp))) =
     (map (row_at inp) [0..<n], cumulative_upto inp n, npv_upto inp n)"
  by (induction n) (simp_all add: calc_step_def row_at_def Let_def)

lemma calc_loop_eq:
  "calc_loop inp =
     (map (row_at inp) [0..<Suc PROJECT_LIFE], cumulative_upto inp (Suc PROJECT_LIFE),
      npv_upto inp (Suc PROJECT_LIFE))"
  unfolding calc_loop_def by (rule calc_fold)

lemma flows_calc: "flows (calc inp) = map (row_at inp) [0..<Suc PROJECT_LIFE]"
  by (simp add: calc_def calc_loop_eq Let_def)

lemma npv_calc: "npv (calc inp) = npv_upto inp (Suc PROJECT_LIFE)"
  by (simp add: calc_def calc_loop_eq Let_def)

lemma payback_calc: "payback (calc inp) = calc_payback (map (row_at inp) [0..<Suc PROJECT_LIFE])"
  by (simp add: calc_def calc_loop_eq Let_def)

lemma payback_flows: "payback (calc inp) = calc_payback (flows (calc inp))"
  by (simp add: calc_def Let_def)

lemma irr_calc:
  "irr (calc inp) = calcIRR (map (\<lambda>yr. Math_round (netCF_at inp (capexPerKwh inp) yr)) [0..<Suc PROJECT_LIFE])"
  by (simp add: calc_def calc_loop_eq Let_def row_at_def comp_def)

lemma length_flows: "length (flows (calc inp)) = Suc PROJECT_LIFE"
  by (simp add: flows_calc)

lemma nth_flows: "i \<le> PROJECT_LIFE \<Longrightarrow> flows (calc inp) ! i = row_at inp i"
  unfolding flows_calc by (metis add_0 le_imp_less_Suc nth_map_upt minus_nat.diff_0)

lemma calc_fields:
  "powerKw (calc inp) = powerKw_of inp"
  "totalCapex (calc inp) = totalCapex_of inp (capexPerKwh inp)"
  "equity (calc inp) = equity_of inp (capexPerKwh inp)"
  "debt (calc inp) = debt_of inp (capexPerKwh inp)"
  "annualOm (calc inp) = annualOm_of inp (capexPerKwh inp)"
  "grossRevenue (calc inp) = grossRevenue_of inp"
  "feeAnnual (calc inp) = feeAnnual_of inp"
  "netRevenue (calc inp) = netRevenue_of inp"
  "annualDebtPmt (calc inp) = annualDebtPmt_of inp (capexPerKwh inp)"
  "ebitdaMarginYear1 (calc inp) =
     js_mul (js_div (js_sub (netRevenue_of inp) (annualOm_of inp (capexPerKwh inp)))
                    (netRevenue_of inp)) (Fin 100)"
  by (simp_all add: calc_def Let_def)

lemma cumulative_upto_numeral:
  "cumulative_upto inp (numeral k) =
     js_add (cumulative_upto inp (pred_numeral k)) (netCF_at inp (capexPerKwh inp) (pred_numeral k))"
  by (simp add: numeral_eq_Suc)

lemmas eval_defs = model_defs js_eval power_divide cumulative_upto_numeral row_at_def
  PROJECT_LIFE_def nth_flows floor_rat_numeral

lemma year0_fields:
  "netCashFlow (row_at inp 0) = Math_round (js_add (Fin 0) (js_neg (equity_of inp (capexPerKwh inp))))"
  "cumulativeCashFlow (row_at inp 0) = Math_round (js_add (Fin 0) (js_neg (equity_of inp (capexPerKwh inp))))"
  by (simp_all add: row_at_def netCF_at_def cashEq_at_def ebitda_at_def rev_at_def opex_at_def
      debtSvc_at_def initialInv_at_def js_sub_def add_zero_idem)

section \<open>The annual debt payment\<close>


lemma annualDebtPmt_for_pos:
  assumes "isFinite d" and "isFinite rate" and "0 < val d" and "0 \<le> val rate" and "0 < tenor"
  shows "annualDebtPmt_for d rate tenor = Fin (val d * payment_factor (val rate) tenor)"
proof (cases "val rate = 0")
  case True
  have "isFinite (js_div d (Fin (of_int tenor)))"
    "val (js_div d (Fin (of_int tenor))) = val d / of_int tenor"
    using assms by simp_all
  moreover have "val d / of_int tenor \<noteq> 0"
    using assms by simp
  ultimately have "js_div d (Fin (of_int tenor)) = Fin (val d / of_int tenor)"
    using Fin_val by metis
  then show ?thesis
    using assms True by (simp add: annualDebtPmt_for_def payment_factor_def)
next
  case False
  then have r: "0 < val rate"
    using assms by simp
  define g where "g = (1 + val rate) ^ nat tenor"
  have g1: "1 < g"
    unfolding g_def using r assms by (intro one_less_power) simp_all
  let ?p = "Math_pow (js_add (Fin 1) rate) tenor"
  have p: "isFinite ?p" "val ?p = g"
    using assms by (simp_all add: g_def power_int_def)
  let ?q = "js_div (js_mul (js_mul d rate) ?p) (js_sub ?p (Fin 1))"
  have q: "isFinite ?q" "val ?q = val d * val rate * g / (g - 1)"
    using assms p g1 by simp_all
  moreover have "val d * val rate * g / (g - 1) \<noteq> 0"
    using assms r g1 by simp
  ultimately have "?q = Fin (val d * val rate * g / (g - 1))"
    using Fin_val by metis
  then show ?thesis
    using assms r by (simp add: annualDebtPmt_for_def g_def payment_factor_def)
qed

lemma annualDebtPmt_for_nonpos:
  "isFinite d \<Longrightarrow> val d \<le> 0 \<or> tenor \<le> 0 \<Longrightarrow> annualDebtPmt_for d rate tenor = Fin 0"
  by (auto simp: annualDebtPmt_for_def)

lemma nonneg_gt_iff: "js_le (Fin 0) a \<Longrightarrow> js_gt a (Fin 0) \<longleftrightarrow> \<not> js_eq a (Fin 0)"
  by (cases a) (auto simp: js_le_def js_gt_def js_eq_def)

text \<open>
  Claim C7. For a principal that is not negative and an integral tenor that is not
  negative, the annual debt payment is 0 when the principal or the tenor is 0, the
  principal divided by the tenor when the rate is 0, and otherwise
  \<open>principal * rate * (1 + rate)^tenor / ((1 + rate)^tenor - 1)\<close>. The comparisons,
  the products, the sum, the power, the difference and the quotients are the operations
  of the program on its numbers, applied in the order of the source, so the statement
  holds whatever a finite operation returns; it holds for every rate, the rates that
  are not negative among them.
\<close>

theorem annualDebtPmt_formula:
  assumes "js_le (Fin 0) prin" and "0 \<le> tenor"
  shows "annualDebtPmt_for prin rate tenor =
     (if js_eq prin (Fin 0) \<or> tenor = 0 then Fin 0
      else if js_eq rate (Fin 0) then js_div prin (Fin (of_int tenor))
      else js_div (js_mul (js_mul prin rate) (Math_pow (js_add (Fin 1) rate) tenor))
                  (js_sub (Math_pow (js_add (Fin 1) rate) tenor) (Fin 1)))"
proof -
  have "js_gt prin (Fin 0) \<and> 0 < tenor \<longleftrightarrow> \<not> (js_eq prin (Fin 0) \<or> tenor = 0)"
    using assms nonneg_gt_iff [of prin] by auto
  then show ?thesis
    by (simp add: annualDebtPmt_for_def)
qed

theorem annualDebtPmt_formula_witness:
  "annualDebtPmt_for (Fin 0) (Fin 0.08) 7 = Fin 0
   \<and> annualDebtPmt_for (Fin 700) (Fin 0.08) 0 = Fin 0
   \<and> annualDebtPmt_for (Fin 700) (Fin 0) 7 = Fin 100
   \<and> annualDebtPmt_for (Fin 3000) (Fin 1) 2 = Fin 4000"
  using annualDebtPmt_formula [of "Fin 0" 7 "Fin 0.08"]
    annualDebtPmt_formula [of "Fin 700" 0 "Fin 0.08"]
    annualDebtPmt_formula [of "Fin 700" 7 "Fin 0"]
    annualDebtPmt_formula [of "Fin 3000" 2 "Fin 1"]
  by (simp add: js_eval)

section \<open>Finite inputs give finite cash flows\<close>

lemma fin_annualDebtPmt_for:
  assumes "isFinite d" and "isFinite rate" and "0 \<le> val rate"
  shows "isFinite (annualDebtPmt_for d rate tenor)"
proof (cases "0 < val d \<and> 0 < tenor")
  case True
  then show ?thesis using assms by (simp add: annualDebtPmt_for_pos)
next
  case False
  then have "val d \<le> 0 \<or> tenor \<le> 0" by auto
  then show ?thesis using assms by (simp add: annualDebtPmt_for_nonpos)
qed

lemma fin_consts [simp]:
  "isFinite OM_COST_RATE" "isFinite DEGRADATION_RATE" "isFinite POWER_TO_ENERGY"
  "isFinite DISCHARGE_EFF" "isFinite (REVENUE_PER_KW s)"
  by (simp_all add: OM_COST_RATE_def DEGRADATION_RATE_def POWER_TO_ENERGY_def DISCHARGE_EFF_def,
      cases s, simp_all)

lemma fin_setup:
  assumes "finite_inputs inp" and "isFinite cpx"
  shows "isFinite (feeRate_of inp)" "isFinite (powerKw_of inp)" "isFinite (totalCapex_of inp cpx)"
    "isFinite (annualOm_of inp cpx)" "isFinite (grossRevenue_of inp)" "isFinite (feeAnnual_of inp)"
    "isFinite (netRevenue_of inp)" "isFinite (debt_of inp cpx)" "isFinite (equity_of inp cpx)"
  using assms
  by (simp_all add: finite_inputs_def feeRate_of_def powerKw_of_def totalCapex_of_def
      annualOm_of_def grossRevenue_of_def feeAnnual_of_def netRevenue_of_def debt_of_def
      equity_of_def)

lemma fin_annualDebtPmt_of:
  assumes "finite_inputs inp" and "isFinite cpx" and "0 \<le> val (interestRate inp)"
  shows "isFinite (annualDebtPmt_of inp cpx)"
  unfolding annualDebtPmt_of_def
  using assms fin_setup(8) [OF assms(1,2)]
  by (intro fin_annualDebtPmt_for) (simp_all add: finite_inputs_def)

lemma fin_degFactor: "isFinite (degFactor_at yr)"
  by (simp add: degFactor_at_def DEGRADATION_RATE_def)

lemma fin_year:
  assumes "finite_inputs inp" and "isFinite cpx" and "0 \<le> val (interestRate inp)"
  shows "isFinite (gRev_at inp yr)" "isFinite (fee_at inp yr)" "isFinite (rev_at inp yr)"
    "isFinite (opex_at inp cpx yr)" "isFinite (debtSvc_at inp cpx yr)"
    "isFinite (ebitda_at inp cpx yr)" "isFinite (cashEq_at inp cpx yr)"
    "isFinite (initialInv_at inp cpx yr)" "isFinite (netCF_at inp cpx yr)"
  using fin_setup [OF assms(1,2)] fin_annualDebtPmt_of [OF assms] fin_degFactor [of yr]
  by (simp_all add: gRev_at_def fee_at_def rev_at_def opex_at_def debtSvc_at_def ebitda_at_def
      cashEq_at_def initialInv_at_def netCF_at_def)

lemma fin_cumulative_upto:
  assumes "finite_inputs inp" and "0 \<le> val (interestRate inp)"
  shows "isFinite (cumulative_upto inp n)"
proof -
  have c: "isFinite (capexPerKwh inp)"
    using assms by (simp add: finite_inputs_def)
  show ?thesis
    by (induction n) (simp_all add: fin_year(9) [OF assms(1) c assms(2)])
qed


lemma fin_npv_upto:
  assumes "finite_inputs inp" and "0 \<le> val (interestRate inp)" and "val (discountRate inp) \<noteq> - 1"
  shows "isFinite (npv_upto inp n)"
proof -
  have c: "isFinite (capexPerKwh inp)" and d: "isFinite (discountRate inp)"
    using assms by (simp_all add: finite_inputs_def)
  have q: "val (js_add (Fin 1) (discountRate inp)) \<noteq> 0"
    using d assms(3) by simp
  have e: "isFinite (equity_of inp (capexPerKwh inp))"
    using fin_setup(9) [OF assms(1) c] .
  show ?thesis
  proof (induction n)
    case 0
    show ?case using e by simp
  next
    case (Suc n)
    then show ?case
      using fin_year(9) [OF assms(1) c assms(2), of n] d q by simp
  qed
qed

section \<open>The rate of return\<close>

lemma irr_npv_zeros:
  assumes "\<forall>cf\<in>set cfs. is_zero cf" and "isFinite r" and "0 < 1 + val r"
  shows "irr_npv r idx (Fin 0) cfs = Fin 0"
  using assms(1)
proof (induction cfs arbitrary: idx)
  case Nil
  show ?case by simp
next
  case (Cons cf cfs)
  have "is_zero (js_div cf (Math_pow (js_add (Fin 1) r) (int idx)))"
    using Cons.prems assms(2,3) by (intro zero_div) simp_all
  then show ?case
    using Cons by (simp add: add_zero_left)
qed

lemma calcIRR_zeros:
  assumes "\<forall>cf\<in>set cashFlows. is_zero cf"
  shows "calcIRR cashFlows = Fin 0.1"
proof -
  have "irr_npv (Fin 0.1) 0 (Fin 0) cashFlows = Fin 0"
    using assms by (intro irr_npv_zeros) simp_all
  then have "irr_loop (Suc 99) cashFlows (Fin 0.1) (Fin 0.1) = Fin 0.1"
    by (simp only: irr_loop.simps Let_def) simp
  then show ?thesis
    by (simp add: calcIRR_def)
qed

lemma irr_loop_Fin: "0 < s \<Longrightarrow> \<exists>x. irr_loop k cfs (Fin r) (Fin s) = Fin x"
proof (induction k arbitrary: r s)
  case 0
  show ?case by simp
next
  case (Suc k)
  have "\<exists>x. irr_loop k cfs (Fin (r + s)) (Fin s) = Fin x"
    using Suc.prems by (rule Suc.IH)
  moreover have "\<exists>x. irr_loop k cfs (Fin (r - s)) (Fin (s / 2)) = Fin x"
    using Suc.prems by (intro Suc.IH) simp
  ultimately show ?case
    using Suc.prems by (auto simp: Let_def js_sub_def js_div_Fin)
qed

lemma fin_calcIRR: "isFinite (calcIRR cfs)"
proof -
  obtain x where "calcIRR cfs = Fin x"
    unfolding calcIRR_def using irr_loop_Fin [of "1 / 10" 100 cfs "1 / 10"] by auto
  then show ?thesis by simp
qed

text \<open>
  Claim C10. On a sequence of net cash flows that are all zero (of either sign, of any
  length), \<open>calcIRR\<close> returns the initial trial rate 0.1: the net present value at
  the first trial is 0, inside the tolerance 0.01. The result is a plain number and it
  is not 0.
\<close>

theorem calcIRR_all_zero:
  assumes "\<forall>cf\<in>set cashFlows. is_zero cf"
  shows "calcIRR cashFlows = Fin 0.1 \<and> \<not> js_eq (calcIRR cashFlows) (Fin 0)"
  using calcIRR_zeros [OF assms] by simp

theorem calcIRR_all_zero_witness:
  "calcIRR (replicate 13 (Fin 0)) = Fin 0.1 \<and> calcIRR [NegZero, Fin 0, NegZero] = Fin 0.1"
  using calcIRR_all_zero [of "replicate 13 (Fin 0)"] calcIRR_all_zero [of "[NegZero, Fin 0, NegZero]"]
  by simp

text \<open>The iterations of \<open>calcIRR\<close> on the rounded and on the unrounded net cash flows of
  the initial state of the component.\<close>

lemma irr_loop_numeral:
  "irr_loop (numeral k) cfs r s = irr_branch (pred_numeral k) cfs r s (irr_npv r 0 (Fin 0) cfs)"
  by (simp add: numeral_eq_Suc irr_branch_def)

lemma irr_branch_Fin:
  "irr_branch k cfs (Fin r) (Fin s) (Fin v) =
     (if \<bar>v\<bar> < 1 / 100 then Fin r
      else if 0 < v then irr_loop k cfs (Fin (r + s)) (Fin s)
      else irr_loop k cfs (Fin (r - s)) (if s = 0 then Fin 0 else Fin (s / 2)))"
  by (simp add: irr_branch_def js_eval)

lemma irr_rounded_default:
  "calcIRR [Fin (- 87500), Fin 41860, Fin 40996, Fin 40150, Fin 39321, Fin 38508, Fin 37712,
     Fin 36931, Fin 36167, Fin 35417, Fin 34682, Fin 33962, Fin 33257] = Fin (1188979 / 2621440)"
  unfolding calcIRR_def
  by (simp add: irr_loop_numeral irr_branch_Fin js_eval power_divide)

lemma irr_unrounded_default:
  "calcIRR [Fin (- 87500), Fin (418599 / 10), Fin (10249113 / 250),
  Fin (125469603 / 3125), Fin (12287817969 / 312500),
  Fin (601692924231 / 15625000), Fin (29462445474819 / 781250000),
  Fin (1442634437641131 / 39062500000),
  Fin (70637817913165419 / 1953125000000),
  Fin (3458689601182605531 / 97656250000000),
  Fin (169347616629822671019 / 4882812500000000),
  Fin (8291624523455060879931 / 244140625000000000),
  Fin (405969167078985483116619 / 12207031250000000000)] = Fin (11889835 / 26214400)"
  unfolding calcIRR_def
  by (simp add: irr_loop_numeral irr_branch_Fin js_eval power_divide)

section \<open>The initial state of the component, evaluated\<close>

lemma default_finite: "finite_inputs default_inputs" "0 \<le> val (interestRate default_inputs)"
  by (simp_all add: finite_inputs_def default_inputs_def)


lemma default_capex: "capexPerKwh default_inputs = Fin 350"
  by (simp add: default_inputs_def)

lemma default_discount: "discountRate default_inputs = Fin (2 / 25)"
  by (simp add: default_inputs_def)

lemma default_equity: "equity (calc default_inputs) = Fin 87500"
  by (simp add: calc_fields model_defs js_eval default_inputs_def)

lemma default_netCF:
  "netCF_at default_inputs (Fin 350) 0 = Fin (- 87500)"
  "netCF_at default_inputs (Fin 350) (Suc 0) = Fin (418599 / 10)"
  "netCF_at default_inputs (Fin 350) 2 = Fin (10249113 / 250)"
  "netCF_at default_inputs (Fin 350) 3 = Fin (125469603 / 3125)"
  "netCF_at default_inputs (Fin 350) 4 = Fin (12287817969 / 312500)"
  "netCF_at default_inputs (Fin 350) 5 = Fin (601692924231 / 15625000)"
  "netCF_at default_inputs (Fin 350) 6 = Fin (29462445474819 / 781250000)"
  "netCF_at default_inputs (Fin 350) 7 = Fin (1442634437641131 / 39062500000)"
  "netCF_at default_inputs (Fin 350) 8 = Fin (70637817913165419 / 1953125000000)"
  "netCF_at default_inputs (Fin 350) 9 = Fin (3458689601182605531 / 97656250000000)"
  "netCF_at default_inputs (Fin 350) 10 = Fin (169347616629822671019 / 4882812500000000)"
  "netCF_at default_inputs (Fin 350) 11 = Fin (8291624523455060879931 / 244140625000000000)"
  "netCF_at default_inputs (Fin 350) 12 = Fin (405969167078985483116619 / 12207031250000000000)"
  by (simp_all add: model_defs js_eval power_divide default_inputs_def)

lemma years_list: "[0..<Suc PROJECT_LIFE] = [0, Suc 0, 2, 3, 4, 5, 6, 7, 8, 9, 10, 11, 12]"
  by (simp add: PROJECT_LIFE_def upt_rec)

lemma default_rounded_flows:
  "map (\<lambda>yr. Math_round (netCF_at default_inputs (capexPerKwh default_inputs) yr))
     [0..<Suc PROJECT_LIFE] = [Fin (- 87500), Fin (41860), Fin (40996), Fin (40150), Fin (39321), Fin (38508), Fin (37712), Fin (36931), Fin (36167), Fin (35417), Fin (34682), Fin (33962), Fin (33257)]"
  unfolding years_list
  by (simp add: default_capex default_netCF floor_rat_numeral)

lemma default_unrounded_flows:
  "map (netCF_at default_inputs (Fin 350)) [0..<Suc PROJECT_LIFE] =
     [Fin (- 87500),
      Fin (418599 / 10),
      Fin (10249113 / 250),
      Fin (125469603 / 3125),
      Fin (12287817969 / 312500),
      Fin (601692924231 / 15625000),
      Fin (29462445474819 / 781250000),
      Fin (1442634437641131 / 39062500000),
      Fin (70637817913165419 / 1953125000000),
      Fin (3458689601182605531 / 97656250000000),
      Fin (169347616629822671019 / 4882812500000000),
      Fin (8291624523455060879931 / 244140625000000000),
      Fin (405969167078985483116619 / 12207031250000000000)]"
  unfolding years_list
  by (simp add: default_netCF)

lemma default_cumulative:
  "cumulative_upto default_inputs (Suc 0) = Fin (- 87500)"
  "cumulative_upto default_inputs 2 = Fin (- (456401 / 10))"
  "cumulative_upto default_inputs 3 = Fin (- (580456 / 125))"
  "cumulative_upto default_inputs 4 = Fin (110958203 / 3125)"
  by (simp_all add: cumulative_upto_numeral default_capex default_netCF)

lemma default_rows:
  "cumulativeCashFlow (flows (calc default_inputs) ! 2) = Fin (- 4644)"
  "cumulativeCashFlow (flows (calc default_inputs) ! 3) = Fin 35507"
  "netCashFlow (flows (calc default_inputs) ! 3) = Fin 40150"
  by (simp_all add: eval_defs default_inputs_def)

lemma default_unrounded_rows:
  "cumulativeCashFlow (unrounded_row default_inputs (Suc 0)) = Fin (- (456401 / 10))"
  "cumulativeCashFlow (unrounded_row default_inputs 2) = Fin (- (580456 / 125))"
  "cumulativeCashFlow (unrounded_row default_inputs 3) = Fin (110958203 / 3125)"
  "netCashFlow (unrounded_row default_inputs 3) = Fin (125469603 / 3125)"
  by (simp_all add: unrounded_row_def Suc_Suc_0 default_cumulative default_capex default_netCF
      del: cumulative_upto.simps)

section \<open>The payback loop\<close>

lemma find_first:
  assumes "a \<le> i" and "i < n" and "P i" and "\<forall>j\<in>set [a..<i]. \<not> P j"
  shows "find P [a..<n] = Some i"
proof -
  have "i - a < length [a..<n]" "[a..<n] ! (i - a) = i"
    using assms by simp_all
  moreover have "\<forall>j<i - a. \<not> P ([a..<n] ! j)"
    using assms by auto
  ultimately show ?thesis
    using assms(3) unfolding find_Some_iff by (intro exI [of _ "i - a"]) simp
qed

lemma calc_payback_crossing:
  assumes "1 \<le> i" and "i < length fl"
    and "js_gt (cumulativeCashFlow (fl ! i)) (Fin 0)"
    and "\<forall>j\<in>set [1..<i]. \<not> js_gt (cumulativeCashFlow (fl ! j)) (Fin 0)"
  shows "calc_payback fl =
     js_add (js_sub (num i) (Fin 1))
       (js_div (js_neg (cumulativeCashFlow (fl ! (i - 1)))) (netCashFlow (fl ! i)))"
proof -
  have "find (\<lambda>i. js_gt (cumulativeCashFlow (fl ! i)) (Fin 0)) [1..<length fl] = Some i"
    using assms by (intro find_first) simp_all
  then show ?thesis
    by (simp add: calc_payback_def Let_def)
qed

lemma calc_payback_none:
  assumes "\<forall>j\<in>set [1..<length fl]. \<not> js_gt (cumulativeCashFlow (fl ! j)) (Fin 0)"
  shows "calc_payback fl = num PROJECT_LIFE"
proof -
  have "find (\<lambda>i. js_gt (cumulativeCashFlow (fl ! i)) (Fin 0)) [1..<length fl] = None"
    using assms unfolding find_None_iff by blast
  then show ?thesis
    by (simp add: calc_payback_def)
qed

lemma default_payback: "payback (calc default_inputs) = Fin (42472 / 20075)"
proof -
  have "calc_payback (flows (calc default_inputs)) =
      js_add (js_sub (num 3) (Fin 1))
        (js_div (js_neg (cumulativeCashFlow (flows (calc default_inputs) ! (3 - 1))))
           (netCashFlow (flows (calc default_inputs) ! 3)))"
    by (intro calc_payback_crossing)
       (simp_all add: length_flows nth_flows PROJECT_LIFE_def row_at_def upt_1_3 Suc_Suc_0
          default_cumulative floor_rat_numeral js_gt_def del: cumulative_upto.simps)
  then show ?thesis
    unfolding payback_flows by (simp add: default_rows js_eval)
qed

lemma default_spec_payback: "spec_payback default_inputs = Fin (5008502 / 2367351)"
proof -
  define fl where "fl = map (unrounded_row default_inputs) [0..<Suc PROJECT_LIFE]"
  have n: "\<And>i. i \<le> PROJECT_LIFE \<Longrightarrow> fl ! i = unrounded_row default_inputs i"
    unfolding fl_def by (metis add_0 le_imp_less_Suc nth_map_upt minus_nat.diff_0)
  have len: "length fl = 13"
    by (simp add: fl_def PROJECT_LIFE_def)
  have "calc_payback fl =
      js_add (js_sub (num 3) (Fin 1))
        (js_div (js_neg (cumulativeCashFlow (fl ! (3 - 1)))) (netCashFlow (fl ! 3)))"
    by (intro calc_payback_crossing)
       (simp_all add: len n PROJECT_LIFE_def upt_1_3 default_unrounded_rows js_gt_def)
  then show ?thesis
    unfolding spec_payback_def fl_def [symmetric]
    by (simp add: n PROJECT_LIFE_def default_unrounded_rows js_eval)
qed

lemma default_irr: "irr (calc default_inputs) = Fin (1188979 / 2621440)"
  unfolding irr_calc default_rounded_flows by (rule irr_rounded_default)

lemma default_spec_irr: "spec_irr default_inputs = Fin (11889835 / 26214400)"
  unfolding spec_irr_def default_capex default_unrounded_flows by (rule irr_unrounded_default)

text \<open>On finite flows the payback loop of \<open>sensitivityData\<close> is the payback loop of \<open>calc\<close>
  run on the unrounded cumulative sums: the point the sweep emits for the capital cost of
  the inputs carries the unrounded metrics.\<close>

lemma sens_payback_unfold:
  "sp_payback (sens_point inp c) =
     sens_payback_loop 1 (js_add (Fin 0) (netCF_at inp c 0))
       (map (netCF_at inp c) [1..<Suc PROJECT_LIFE])"
  by (simp add: sens_point_def sens_flows_def Let_def upt_conv_Cons del: upt_Suc)

lemma prevCum_same:
  assumes "isFinite c" and "isFinite f"
  shows "js_add (Fin x) (js_div (js_neg (js_sub (js_add c f) f)) f) =
     js_add (Fin x) (js_div (js_neg c) f)"
  using assms
  by (cases c; cases f) (auto simp: js_sub_def js_div_def signed_zero_def signed_inf_def)

lemma find_upt_rec:
  "k < n \<Longrightarrow> find P [k..<n] = (if P k then Some k else find P [Suc k..<n])"
  by (simp add: upt_conv_Cons)

lemma sens_loop_find:
  assumes "\<And>i. isFinite (f i)" and "\<And>i. isFinite (c i)" and "\<And>i. c (Suc i) = js_add (c i) (f i)"
    and "0 < k" and "k \<le> n"
  shows "sens_payback_loop k (c k) (map f [k..<n]) =
     (case find (\<lambda>i. js_gt (c (Suc i)) (Fin 0)) [k..<n] of
        None \<Rightarrow> num PROJECT_LIFE
      | Some i \<Rightarrow> js_add (js_sub (num i) (Fin 1)) (js_div (js_neg (c i)) (f i)))"
  using assms(4,5)
proof (induction "n - k" arbitrary: k)
  case 0
  then show ?case by simp
next
  case (Suc d)
  then have kn: "k < n" and d: "d = n - Suc k" and le: "Suc k \<le> n"
    by simp_all
  have l: "map f [k..<n] = f k # map f [Suc k..<n]"
    using kn by (simp add: upt_conv_Cons)
  have s: "js_sub (num k) (Fin 1) = Fin (of_nat k - 1)"
    by (simp add: js_sub_def num_def)
  show ?case
  proof (cases "js_gt (c (Suc k)) (Fin 0)")
    case True
    then show ?thesis
      using kn Suc.prems(1) assms(1,2) unfolding l find_upt_rec [OF kn]
      by (simp add: assms(3) Let_def s prevCum_same)
  next
    case False
    have "sens_payback_loop (Suc k) (c (Suc k)) (map f [Suc k..<n]) =
        (case find (\<lambda>i. js_gt (c (Suc i)) (Fin 0)) [Suc k..<n] of
           None \<Rightarrow> num PROJECT_LIFE
         | Some i \<Rightarrow> js_add (js_sub (num i) (Fin 1)) (js_div (js_neg (c i)) (f i)))"
      using d le by (intro Suc.hyps(1)) simp_all
    then show ?thesis
      using False kn unfolding l find_upt_rec [OF kn]
      by (simp add: assms(3) [symmetric] Let_def)
  qed
qed

lemma sweep_point_unrounded:
  assumes "finite_inputs inp" and "0 \<le> val (interestRate inp)"
  shows "sp_payback (sens_point inp (capexPerKwh inp)) = spec_payback inp"
    and "sp_irr (sens_point inp (capexPerKwh inp)) = js_mul (spec_irr inp) (Fin 100)"
proof -
  let ?c = "capexPerKwh inp"
  have c: "isFinite ?c"
    using assms by (simp add: finite_inputs_def)
  note ff = fin_year(9) [OF assms(1) c assms(2)] and fc = fin_cumulative_upto [OF assms]
  define fl where "fl = map (unrounded_row inp) [0..<Suc PROJECT_LIFE]"
  have len: "length fl = Suc PROJECT_LIFE"
    by (simp add: fl_def)
  have n: "\<And>i. i \<le> PROJECT_LIFE \<Longrightarrow> fl ! i = unrounded_row inp i"
    unfolding fl_def by (metis add_0 le_imp_less_Suc nth_map_upt minus_nat.diff_0)
  have P: "find (\<lambda>i. js_gt (cumulativeCashFlow (fl ! i)) (Fin 0)) [1..<length fl] =
      find (\<lambda>i. js_gt (cumulative_upto inp (Suc i)) (Fin 0)) [1..<Suc PROJECT_LIFE]"
    unfolding len by (rule find_cong) (simp_all add: n unrounded_row_def del: upt_Suc cumulative_upto.simps)
  have A: "spec_payback inp =
     (case find (\<lambda>i. js_gt (cumulative_upto inp (Suc i)) (Fin 0)) [1..<Suc PROJECT_LIFE] of
        None \<Rightarrow> num PROJECT_LIFE
      | Some i \<Rightarrow> js_add (js_sub (num i) (Fin 1))
          (js_div (js_neg (cumulative_upto inp i)) (netCF_at inp ?c i)))"
  proof (cases "find (\<lambda>i. js_gt (cumulative_upto inp (Suc i)) (Fin 0)) [1..<Suc PROJECT_LIFE]")
    case None
    then show ?thesis
      unfolding spec_payback_def fl_def [symmetric] calc_payback_def P by simp
  next
    case (Some i)
    then have "i \<in> set [1..<Suc PROJECT_LIFE]"
      by (auto simp: find_Some_iff in_set_conv_nth simp del: upt_Suc)
    then have i: "1 \<le> i" "i \<le> PROJECT_LIFE"
      by (simp_all del: upt_Suc)
    then obtain j where j: "i = Suc j"
      by (cases i) simp_all
    show ?thesis
      unfolding spec_payback_def fl_def [symmetric] calc_payback_def P Some
      using i j by (simp add: n unrounded_row_def Let_def del: cumulative_upto.simps)
  qed
  have "sens_payback_loop 1 (cumulative_upto inp 1) (map (netCF_at inp ?c) [1..<Suc PROJECT_LIFE]) =
     (case find (\<lambda>i. js_gt (cumulative_upto inp (Suc i)) (Fin 0)) [1..<Suc PROJECT_LIFE] of
        None \<Rightarrow> num PROJECT_LIFE
      | Some i \<Rightarrow> js_add (js_sub (num i) (Fin 1))
          (js_div (js_neg (cumulative_upto inp i)) (netCF_at inp ?c i)))"
    using ff fc by (intro sens_loop_find) simp_all
  then show "sp_payback (sens_point inp ?c) = spec_payback inp"
    unfolding A sens_payback_unfold by simp
  show "sp_irr (sens_point inp ?c) = js_mul (spec_irr inp) (Fin 100)"
    by (simp add: sens_point_def sens_flows_def spec_irr_def Let_def del: upt_Suc)
qed

section \<open>The net present value\<close>

lemma npv_double_count:
  assumes "finite_inputs inp" and "0 \<le> val (interestRate inp)" and "val (discountRate inp) \<noteq> - 1"
  shows "isFinite (discounted_sum inp n) \<and>
     val (npv_upto inp n) = val (discounted_sum inp n) - val (equity_of inp (capexPerKwh inp))"
proof -
  have c: "isFinite (capexPerKwh inp)" and d: "isFinite (discountRate inp)"
    using assms by (simp_all add: finite_inputs_def)
  have q: "val (js_add (Fin 1) (discountRate inp)) \<noteq> 0"
    using d assms(3) by simp
  have e: "isFinite (equity_of inp (capexPerKwh inp))"
    using fin_setup(9) [OF assms(1) c] .
  show ?thesis
  proof (induction n)
    case 0
    show ?case using e by simp
  next
    case (Suc n)
    then show ?case
      using fin_year(9) [OF assms(1) c assms(2), of n] fin_npv_upto [OF assms, of n] d q by simp
  qed
qed

lemma npv_less_equity:
  assumes "finite_inputs inp" and "0 \<le> val (interestRate inp)" and "val (discountRate inp) \<noteq> - 1"
  shows "val (npv (calc inp)) = val (spec_npv inp) - val (equity (calc inp))"
  using npv_double_count [OF assms, of "Suc PROJECT_LIFE"]
  by (simp add: npv_calc spec_npv_def calc_fields del: npv_upto.simps discounted_sum.simps)

lemma discounted_sum_numeral:
  "discounted_sum inp (numeral k) =
     js_add (discounted_sum inp (pred_numeral k))
       (js_mul (netCF_at inp (capexPerKwh inp) (pred_numeral k))
          (Math_pow (js_add (Fin 1) (discountRate inp)) (- int (pred_numeral k))))"
  by (simp add: numeral_eq_Suc)

lemma default_spec_npv:
  "spec_npv default_inputs = Fin (10236126077782223477280055 / 51232302181375699968)"
  by (simp add: spec_npv_def PROJECT_LIFE_def discounted_sum_numeral default_capex default_discount
      default_netCF js_eval power_divide)

text \<open>
  Claim C1. The \<open>npv\<close> field is claimed to be the sum of the discounted net cash flows
  of the years 0 to \<open>PROJECT_LIFE\<close>, the equity outlay counted once, in year 0. The loop
  starts its accumulator at \<open>-equity\<close> and then adds year 0, whose net cash flow is
  \<open>-equity\<close> again: \<open>npv\<close> is the discounted sum less the equity (\<open>npv_less_equity\<close>,
  for every finite input). In the initial state of the component the equity is 87500,
  the discounted sum is about 199798 and \<open>npv\<close> is about 112298.
\<close>

theorem npv_counts_equity_twice:
  "equity (calc default_inputs) = Fin 87500
   \<and> spec_npv default_inputs = Fin (10236126077782223477280055 / 51232302181375699968)
   \<and> npv (calc default_inputs) = js_sub (spec_npv default_inputs) (Fin 87500)
   \<and> \<not> js_eq (npv (calc default_inputs)) (spec_npv default_inputs)"
proof -
  have f: "isFinite (npv (calc default_inputs))"
    unfolding npv_calc by (intro fin_npv_upto) (simp_all add: default_finite default_discount)
  have "val (npv (calc default_inputs)) = val (spec_npv default_inputs) - 87500"
    using npv_double_count [of default_inputs "Suc PROJECT_LIFE"] default_equity
    by (simp add: npv_calc spec_npv_def default_finite default_discount calc_fields
        del: npv_upto.simps discounted_sum.simps)
  then have v: "val (npv (calc default_inputs)) = 5753299636911849730080055 / 51232302181375699968"
    by (simp add: default_spec_npv)
  have nz: "val (npv (calc default_inputs)) \<noteq> 0"
    unfolding v by simp
  have "npv (calc default_inputs) = Fin (val (npv (calc default_inputs)))"
    using f nz by (rule Fin_val)
  then have "npv (calc default_inputs) = Fin (5753299636911849730080055 / 51232302181375699968)"
    unfolding v .
  then show ?thesis
    by (simp add: default_equity default_spec_npv js_eval)
qed

section \<open>Rounded and unrounded flows\<close>

text \<open>
  Claim C2. The \<open>irr\<close> and \<open>payback\<close> of the result are claimed to be computed from
  the unrounded net cash flows and cumulative sums. \<open>calc\<close> passes the rounded
  \<open>netCashFlow\<close> fields of the table to \<open>calcIRR\<close> (\<open>irr_calc\<close>) and reads the rounded
  \<open>cumulativeCashFlow\<close> and \<open>netCashFlow\<close> fields in its payback loop. In the initial
  state of the component both metrics differ from their unrounded values.
\<close>

theorem primary_metrics_use_rounded_flows:
  "irr (calc default_inputs) = Fin (1188979 / 2621440)
   \<and> spec_irr default_inputs = Fin (11889835 / 26214400)
   \<and> \<not> js_eq (irr (calc default_inputs)) (spec_irr default_inputs)
   \<and> payback (calc default_inputs) = Fin (42472 / 20075)
   \<and> spec_payback default_inputs = Fin (5008502 / 2367351)
   \<and> \<not> js_eq (payback (calc default_inputs)) (spec_payback default_inputs)"
  by (simp add: default_irr default_spec_irr default_payback default_spec_payback js_eq_def)

lemma default_sens_payback:
  "sp_payback (sens_point default_inputs (Fin 350)) = Fin (5008502 / 2367351)"
  by (simp add: sens_point_def sens_flows_def Let_def default_unrounded_flows js_eval del: upt_Suc)

lemma default_sens_irr:
  "sp_irr (sens_point default_inputs (Fin 350)) = Fin (11889835 / 262144)"
  by (simp add: sens_point_def sens_flows_def Let_def default_unrounded_flows irr_unrounded_default
      js_eval del: upt_Suc)

text \<open>
  Claim C4. The point the sweep emits for the capital cost of the inputs is claimed to
  equal the primary result. \<open>sensitivityData\<close> computes on the unrounded flows
  (\<open>sweep_point_unrounded\<close>) and \<open>calc\<close> on the rounded table: in the initial state
  of the component, whose capital cost 350 is the third swept value, the payback and the
  rate of return of the point differ from those of \<open>calc\<close>.
\<close>

theorem sweep_differs_from_primary:
  "js_eq (capexPerKwh default_inputs) (capex (sensitivityData default_inputs ! 2))
   \<and> sp_payback (sensitivityData default_inputs ! 2) = Fin (5008502 / 2367351)
   \<and> payback (calc default_inputs) = Fin (42472 / 20075)
   \<and> \<not> js_eq (sp_payback (sensitivityData default_inputs ! 2)) (payback (calc default_inputs))
   \<and> sp_irr (sensitivityData default_inputs ! 2) = Fin (11889835 / 262144)
   \<and> js_mul (irr (calc default_inputs)) (Fin 100) = Fin (5944895 / 131072)
   \<and> \<not> js_eq (sp_irr (sensitivityData default_inputs ! 2))
            (js_mul (irr (calc default_inputs)) (Fin 100))"
proof -
  have "sensitivityData default_inputs ! 2 = sens_point default_inputs (Fin 350)"
    by (simp add: sensitivityData_def CAPEX_VALUES_def)
  moreover have "capex (sens_point default_inputs (Fin 350)) = Fin 350"
    by (simp add: sens_point_def Let_def)
  ultimately show ?thesis
    by (simp add: default_capex default_sens_payback default_sens_irr default_payback default_irr
        js_eval)
qed

section \<open>Division by zero in the payback loop\<close>

text \<open>
  Claim C3, as amended. The payback loop has no guard. When the first year \<open>i\<close> from 1
  whose rounded cumulative cash flow is positive has a rounded net cash flow of zero,
  and the cumulative cash flow of the year before is at most 0, the loop divides by
  zero: the payback is NaN when that cumulative cash flow is zero and an infinity
  otherwise, never \<open>i - 1\<close>.
\<close>

theorem payback_unguarded_division:
  assumes "1 \<le> i" and "i < length fl"
    and "js_gt (cumulativeCashFlow (fl ! i)) (Fin 0)"
    and "\<forall>j\<in>set [1..<i]. \<not> js_gt (cumulativeCashFlow (fl ! j)) (Fin 0)"
    and "js_le (cumulativeCashFlow (fl ! (i - 1))) (Fin 0)"
    and "is_zero (netCashFlow (fl ! i))"
  shows "calc_payback fl =
     (if is_zero (cumulativeCashFlow (fl ! (i - 1))) then NaN
      else signed_inf (signbit (netCashFlow (fl ! i))))"
proof -
  have "js_sub (num i) (Fin 1) = Fin (of_nat i - 1)"
    by (simp add: js_sub_def num_def)
  then show ?thesis
    unfolding calc_payback_crossing [OF assms(1-4)] div_zero_cases [OF assms(5,6)]
    by (simp add: add_nonfinite)
qed

lemma tiny_rows:
  "cumulativeCashFlow (flows (calc tiny_inputs) ! Suc 0) = Fin 0"
  "cumulativeCashFlow (flows (calc tiny_inputs) ! 2) = Fin 1"
  "netCashFlow (flows (calc tiny_inputs) ! 2) = Fin 0"
  by (simp_all add: eval_defs tiny_inputs_def default_inputs_def)

text \<open>The claim as stated fails for a storage of 0.002 kWh at no capital cost: year 2 is
  the first with a positive rounded cumulative cash flow, its rounded net cash flow is
  0, and the payback is NaN.\<close>

theorem payback_NaN_counterexample:
  "js_gt (cumulativeCashFlow (flows (calc tiny_inputs) ! 2)) (Fin 0)
   \<and> js_le (cumulativeCashFlow (flows (calc tiny_inputs) ! 1)) (Fin 0)
   \<and> js_eq (netCashFlow (flows (calc tiny_inputs) ! 2)) (Fin 0)
   \<and> payback (calc tiny_inputs) = NaN"
proof -
  have "find (\<lambda>i. js_gt (cumulativeCashFlow (flows (calc tiny_inputs) ! i)) (Fin 0))
          [1..<length (flows (calc tiny_inputs))] = Some 2"
    by (intro find_first) (simp_all add: length_flows PROJECT_LIFE_def tiny_rows js_gt_def upt_rec)
  then have "calc_payback (flows (calc tiny_inputs)) = NaN"
    by (simp add: calc_payback_def Let_def tiny_rows js_eval js_div_def)
  moreover have "payback (calc tiny_inputs) = calc_payback (flows (calc tiny_inputs))"
    by (simp add: payback_calc flows_calc)
  ultimately show ?thesis
    by (simp add: tiny_rows js_eval)
qed

theorem payback_unguarded_division_witness:
  "calc_payback (flows (calc tiny_inputs)) = NaN"
  using payback_unguarded_division [of 2 "flows (calc tiny_inputs)"]
  by (simp add: length_flows PROJECT_LIFE_def tiny_rows js_eval upt_rec)

section \<open>The rounded table\<close>

text \<open>
  Claim C5, as amended. The two fields of year 0 hold the same value, so that
  \<open>cumulativeCashFlow[0] === netCashFlow[0]\<close> unless that value is NaN. For \<open>i > 0\<close>
  each field of the table is rounded on its own from the unrounded running values:
  \<open>netCashFlow[i]\<close> is the rounding of the net cash flow of the year,
  \<open>cumulativeCashFlow[i-1]\<close> the rounding of the running sum on entry to the year, and
  \<open>cumulativeCashFlow[i]\<close> the rounding of the sum of the unrounded two. The recurrence
  holds between the unrounded values, not between the fields of the table.
\<close>

theorem cumulative_rounded_consistency:
  "cumulativeCashFlow (flows (calc inp) ! 0) = netCashFlow (flows (calc inp) ! 0)
   \<and> (js_eq (cumulativeCashFlow (flows (calc inp) ! 0)) (netCashFlow (flows (calc inp) ! 0))
        \<longleftrightarrow> netCashFlow (flows (calc inp) ! 0) \<noteq> NaN)
   \<and> (\<forall>i. 0 < i \<and> i \<le> PROJECT_LIFE \<longrightarrow>
         netCashFlow (flows (calc inp) ! i) = Math_round (netCF_at inp (capexPerKwh inp) i)
         \<and> cumulativeCashFlow (flows (calc inp) ! (i - 1)) = Math_round (cumulative_upto inp i)
         \<and> cumulativeCashFlow (flows (calc inp) ! i) =
             Math_round (js_add (cumulative_upto inp i) (netCF_at inp (capexPerKwh inp) i)))"
proof (intro conjI allI impI)
  show y0: "cumulativeCashFlow (flows (calc inp) ! 0) = netCashFlow (flows (calc inp) ! 0)"
    by (simp add: nth_flows year0_fields)
  show "js_eq (cumulativeCashFlow (flows (calc inp) ! 0)) (netCashFlow (flows (calc inp) ! 0))
      \<longleftrightarrow> netCashFlow (flows (calc inp) ! 0) \<noteq> NaN"
    unfolding y0 by (simp add: js_eq_def)
next
  fix i
  assume i: "0 < i \<and> i \<le> PROJECT_LIFE"
  then obtain k where k: "i = Suc k"
    by (cases i) simp_all
  have k': "k \<le> PROJECT_LIFE"
    using i k by simp
  show "netCashFlow (flows (calc inp) ! i) = Math_round (netCF_at inp (capexPerKwh inp) i)"
    using i by (simp add: nth_flows row_at_def)
  show "cumulativeCashFlow (flows (calc inp) ! (i - 1)) = Math_round (cumulative_upto inp i)"
    using k k' by (simp add: nth_flows row_at_def del: cumulative_upto.simps)
  show "cumulativeCashFlow (flows (calc inp) ! i) =
      Math_round (js_add (cumulative_upto inp i) (netCF_at inp (capexPerKwh inp) i))"
    using i by (simp add: nth_flows row_at_def)
qed

text \<open>The exact equality fails in year 3 of the initial state of the component:
  \<open>35507\<close> against \<open>-4644 + 40150\<close>.\<close>

theorem cumulative_rounded_counterexample:
  "\<not> js_eq (cumulativeCashFlow (flows (calc default_inputs) ! 3))
     (js_add (cumulativeCashFlow (flows (calc default_inputs) ! 2))
             (netCashFlow (flows (calc default_inputs) ! 3)))"
  by (simp add: default_rows js_eval)

theorem cumulative_rounded_consistency_witness:
  "cumulativeCashFlow (flows (calc default_inputs) ! 0) = netCashFlow (flows (calc default_inputs) ! 0)
   \<and> Math_round (cumulative_upto default_inputs 3) = Fin (- 4644)
   \<and> Math_round (netCF_at default_inputs (capexPerKwh default_inputs) 3) = Fin 40150
   \<and> Math_round (js_add (cumulative_upto default_inputs 3)
         (netCF_at default_inputs (capexPerKwh default_inputs) 3)) = Fin 35507"
proof -
  have "0 < (3::nat) \<and> 3 \<le> PROJECT_LIFE"
    by (simp add: PROJECT_LIFE_def)
  with cumulative_rounded_consistency [of default_inputs]
  have "cumulativeCashFlow (flows (calc default_inputs) ! 0) = netCashFlow (flows (calc default_inputs) ! 0)
    \<and> netCashFlow (flows (calc default_inputs) ! 3) =
        Math_round (netCF_at default_inputs (capexPerKwh default_inputs) 3)
    \<and> cumulativeCashFlow (flows (calc default_inputs) ! (3 - 1)) =
        Math_round (cumulative_upto default_inputs 3)
    \<and> cumulativeCashFlow (flows (calc default_inputs) ! 3) =
        Math_round (js_add (cumulative_upto default_inputs 3)
          (netCF_at default_inputs (capexPerKwh default_inputs) 3))"
    by blast
  then show ?thesis
    by (simp add: default_rows)
qed

lemma round_gt_zero_iff: "js_gt (Math_round x) (Fin 0) \<longleftrightarrow> js_le (Fin (1 / 2)) x"
proof (cases x)
  case (Fin q)
  have "0 < \<lfloor>q + 1 / 2\<rfloor> \<longleftrightarrow> 1 / 2 \<le> q"
    by linarith
  then show ?thesis
    using Fin by (auto simp: js_gt_def js_le_def)
qed (simp_all add: js_gt_def js_le_def)

lemma no_debt_no_payment:
  "\<not> js_gt (debt_of inp c) (Fin 0) \<or> loanTenor inp \<le> 0 \<Longrightarrow> annualDebtPmt_of inp c = Fin 0"
  by (auto simp: annualDebtPmt_of_def annualDebtPmt_for_def)

text \<open>
  Claim C6, as amended. The \<open>debtService\<close> field is 0 in year 0 and in every year
  after the loan tenor, and in every year when the debt is not above 0. In a year
  \<open>0 < i \<le> loanTenor\<close> of the table it is the rounding of the annual payment, so it
  is positive exactly when the annual payment is at least one half: a positive debt
  alone does not make it positive.
\<close>

theorem debtService_window:
  assumes "i \<le> PROJECT_LIFE"
  shows "(i = 0 \<or> loanTenor inp < int i \<longrightarrow> debtService (flows (calc inp) ! i) = Fin 0)
    \<and> (\<not> js_gt (debt (calc inp)) (Fin 0) \<longrightarrow> debtService (flows (calc inp) ! i) = Fin 0)
    \<and> (0 < i \<and> int i \<le> loanTenor inp \<longrightarrow>
         debtService (flows (calc inp) ! i) = Math_round (annualDebtPmt (calc inp))
         \<and> (js_gt (debtService (flows (calc inp) ! i)) (Fin 0)
              \<longleftrightarrow> js_le (Fin (1 / 2)) (annualDebtPmt (calc inp))))"
proof (intro conjI impI)
  assume "i = 0 \<or> loanTenor inp < int i"
  then have "debtSvc_at inp (capexPerKwh inp) i = Fin 0"
    by (auto simp: debtSvc_at_def)
  then show "debtService (flows (calc inp) ! i) = Fin 0"
    using assms by (simp add: nth_flows row_at_def)
next
  assume "\<not> js_gt (debt (calc inp)) (Fin 0)"
  then have "annualDebtPmt_of inp (capexPerKwh inp) = Fin 0"
    by (intro no_debt_no_payment) (simp add: calc_fields)
  then have "debtSvc_at inp (capexPerKwh inp) i = Fin 0"
    by (simp add: debtSvc_at_def)
  then show "debtService (flows (calc inp) ! i) = Fin 0"
    using assms by (simp add: nth_flows row_at_def)
next
  assume a: "0 < i \<and> int i \<le> loanTenor inp"
  then show ds: "debtService (flows (calc inp) ! i) = Math_round (annualDebtPmt (calc inp))"
    using assms by (simp add: nth_flows row_at_def debtSvc_at_def calc_fields)
  show "js_gt (debtService (flows (calc inp) ! i)) (Fin 0)
      \<longleftrightarrow> js_le (Fin (1 / 2)) (annualDebtPmt (calc inp))"
    unfolding ds by (rule round_gt_zero_iff)
qed

lemma small_loan_values:
  "debt (calc small_loan_inputs) = Fin (1 / 2)"
  "loanTenor small_loan_inputs = 7"
  "debtService (flows (calc small_loan_inputs) ! Suc 0) = Fin 0"
  "annualDebtPmt (calc small_loan_inputs) = Fin (10460353203 / 108920939450)"
  by (simp_all add: calc_fields eval_defs small_loan_inputs_def default_inputs_def)

text \<open>A debt of one half over seven years has an annual payment below one half, which
  the table rounds to 0.\<close>

theorem debtService_window_counterexample:
  "js_gt (debt (calc small_loan_inputs)) (Fin 0) \<and> 0 < loanTenor small_loan_inputs
   \<and> \<not> js_gt (debtService (flows (calc small_loan_inputs) ! 1)) (Fin 0)"
  by (simp add: small_loan_values js_eval)

lemma half_debt_values:
  "loanTenor half_debt_inputs = 7"
  "annualDebtPmt (calc half_debt_inputs) = Fin (18305618105250 / 2178418789)"
  "debt (calc default_inputs) = Fin 0"
  by (simp_all add: calc_fields eval_defs half_debt_inputs_def default_inputs_def)

theorem debtService_window_witness:
  "\<not> js_le (Fin (1 / 2)) (annualDebtPmt (calc small_loan_inputs))
   \<and> \<not> js_gt (debtService (flows (calc small_loan_inputs) ! 1)) (Fin 0)
   \<and> debtService (flows (calc small_loan_inputs) ! 8) = Fin 0
   \<and> debtService (flows (calc half_debt_inputs) ! 1) = Fin 8403
   \<and> js_gt (debtService (flows (calc half_debt_inputs) ! 1)) (Fin 0)
   \<and> debtService (flows (calc default_inputs) ! 1) = Fin 0"
  using debtService_window [of 1 small_loan_inputs] debtService_window [of 8 small_loan_inputs]
    debtService_window [of 1 half_debt_inputs] debtService_window [of 1 default_inputs]
  by (simp add: small_loan_values half_debt_values PROJECT_LIFE_def js_eval floor_rat_numeral)

section \<open>Degenerate inputs\<close>

text \<open>The rules of the zeros: a zero of either sign times a finite number, the sum and
  the difference of two zeros, and the rounding of a zero are zeros, and no zero is
  above 0.\<close>

lemma zero_mul: "is_zero a \<Longrightarrow> isFinite b \<Longrightarrow> is_zero (js_mul a b)"
  by (cases a; cases b) (simp_all add: js_mul_def signed_zero_def)

lemma zero_neg: "is_zero a \<Longrightarrow> is_zero (js_neg a)"
  by (cases a) simp_all

lemma zero_add: "is_zero a \<Longrightarrow> is_zero b \<Longrightarrow> is_zero (js_add a b)"
  by (cases a; cases b) simp_all

lemma zero_sub: "is_zero a \<Longrightarrow> is_zero b \<Longrightarrow> is_zero (js_sub a b)"
  by (simp add: js_sub_def zero_add zero_neg)

lemma zero_round: "is_zero a \<Longrightarrow> is_zero (Math_round a)"
  by (cases a) simp_all

lemma zero_not_gt: "is_zero a \<Longrightarrow> \<not> js_gt a (Fin 0)"
  by (cases a) (simp_all add: js_gt_def)

lemma fin_discount:
  assumes "isFinite d" and "d \<noteq> Fin (- 1)"
  shows "isFinite (Math_pow (js_add (Fin 1) d) (- int yr))"
proof -
  have "val (js_add (Fin 1) d) \<noteq> 0"
    using assms by (cases d) auto
  then show ?thesis
    using assms(1) by simp
qed

text \<open>Zero capacity: every amount derived before the loop is a zero, and so is every
  quantity of every year.\<close>

lemma zero_capacity_amounts:
  assumes "is_zero (bessSize inp)" and "isFinite c" and "isFinite (debtRatio inp)"
    and "isFinite (aggregatorFeePercent inp)"
  shows "is_zero (powerKw_of inp)" "is_zero (totalCapex_of inp c)" "is_zero (annualOm_of inp c)"
    "is_zero (grossRevenue_of inp)" "is_zero (feeAnnual_of inp)" "is_zero (netRevenue_of inp)"
    "is_zero (debt_of inp c)" "is_zero (equity_of inp c)" "annualDebtPmt_of inp c = Fin 0"
    "isFinite (feeRate_of inp)"
proof -
  show p: "is_zero (powerKw_of inp)"
    using assms(1) by (simp add: powerKw_of_def zero_mul)
  show t: "is_zero (totalCapex_of inp c)"
    using assms(1,2) by (simp add: totalCapex_of_def zero_mul)
  show "is_zero (annualOm_of inp c)"
    using t by (simp add: annualOm_of_def zero_mul)
  show g: "is_zero (grossRevenue_of inp)"
    using p by (simp add: grossRevenue_of_def zero_mul)
  show f: "isFinite (feeRate_of inp)"
    using assms(4) by (simp add: feeRate_of_def)
  show fa: "is_zero (feeAnnual_of inp)"
    using g f by (simp add: feeAnnual_of_def zero_mul)
  show "is_zero (netRevenue_of inp)"
    using g fa by (simp add: netRevenue_of_def zero_sub)
  show d: "is_zero (debt_of inp c)"
    using t assms(3) by (simp add: debt_of_def zero_mul)
  show "is_zero (equity_of inp c)"
    using t d by (simp add: equity_of_def zero_sub)
  show "annualDebtPmt_of inp c = Fin 0"
    using zero_not_gt [OF d] by (simp add: no_debt_no_payment)
qed

lemma zero_capacity_year:
  assumes "is_zero (bessSize inp)" and "isFinite c" and "isFinite (debtRatio inp)"
    and "isFinite (aggregatorFeePercent inp)"
  shows "is_zero (fee_at inp yr)" "is_zero (rev_at inp yr)" "is_zero (opex_at inp c yr)"
    "is_zero (ebitda_at inp c yr)" "debtSvc_at inp c yr = Fin 0" "is_zero (netCF_at inp c yr)"
proof -
  note z = zero_capacity_amounts [OF assms]
  have g: "is_zero (gRev_at inp yr)"
    using z(4) fin_degFactor [of yr] by (simp add: gRev_at_def zero_mul)
  show f: "is_zero (fee_at inp yr)"
    using g z(10) by (simp add: fee_at_def zero_mul)
  show r: "is_zero (rev_at inp yr)"
    using g f by (simp add: rev_at_def zero_sub)
  show o: "is_zero (opex_at inp c yr)"
    using z(3) by (simp add: opex_at_def)
  show e: "is_zero (ebitda_at inp c yr)"
    using r o by (simp add: ebitda_at_def zero_sub)
  show d: "debtSvc_at inp c yr = Fin 0"
    using z(9) by (simp add: debtSvc_at_def)
  have "is_zero (cashEq_at inp c yr)"
    using e d by (simp add: cashEq_at_def zero_sub)
  moreover have "is_zero (initialInv_at inp c yr)"
    using z(8) by (simp add: initialInv_at_def zero_neg)
  ultimately show "is_zero (netCF_at inp c yr)"
    by (simp add: netCF_at_def zero_add)
qed

lemma zero_capacity_cumulative:
  assumes "is_zero (bessSize inp)" and "isFinite (capexPerKwh inp)" and "isFinite (debtRatio inp)"
    and "isFinite (aggregatorFeePercent inp)"
  shows "is_zero (cumulative_upto inp n)"
  by (induction n) (simp_all add: zero_add zero_capacity_year(6) [OF assms])

lemma zero_capacity_npv:
  assumes "is_zero (bessSize inp)" and "isFinite (capexPerKwh inp)" and "isFinite (debtRatio inp)"
    and "isFinite (aggregatorFeePercent inp)"
    and "isFinite (discountRate inp)" and "discountRate inp \<noteq> Fin (- 1)"
  shows "is_zero (npv_upto inp n)"
proof (induction n)
  case 0
  show ?case
    using zero_capacity_amounts(8) [OF assms(1-4)] by (simp add: zero_neg)
next
  case (Suc n)
  have "is_zero (js_mul (netCF_at inp (capexPerKwh inp) n)
      (Math_pow (js_add (Fin 1) (discountRate inp)) (- int n)))"
    using zero_capacity_year(6) [OF assms(1-4)] fin_discount [OF assms(5,6)] by (rule zero_mul)
  then show ?case
    using Suc by (simp add: zero_add)
qed

lemma zero_capacity_rows:
  assumes "is_zero (bessSize inp)" and "isFinite (capexPerKwh inp)" and "isFinite (debtRatio inp)"
    and "isFinite (aggregatorFeePercent inp)" and "r \<in> set (flows (calc inp))"
  shows "is_zero (revenue r) \<and> is_zero (aggregatorFee r) \<and> is_zero (opex r) \<and>
    is_zero (ebitda r) \<and> debtService r = Fin 0 \<and> is_zero (netCashFlow r) \<and>
    is_zero (cumulativeCashFlow r)"
proof -
  obtain yr where r: "r = row_at inp yr"
    using assms(5) unfolding flows_calc by auto
  note y = zero_capacity_year [OF assms(1-4), of yr]
    and c = zero_capacity_cumulative [OF assms(1-4), of "Suc yr"]
  show ?thesis
    unfolding r using y c by (simp add: row_at_def zero_round del: cumulative_upto.simps)
qed

lemma zero_capacity_results:
  assumes "is_zero (bessSize inp)" and "isFinite (capexPerKwh inp)" and "isFinite (debtRatio inp)"
    and "isFinite (aggregatorFeePercent inp)"
  shows "ebitdaMarginYear1 (calc inp) = NaN" "payback (calc inp) = Fin 12"
    "irr (calc inp) = Fin 0.1"
proof -
  let ?c = "capexPerKwh inp"
  note z = zero_capacity_amounts [OF assms]
  have "is_zero (js_sub (netRevenue_of inp) (annualOm_of inp ?c))"
    using z(3,6) by (rule zero_sub [rotated])
  then show "ebitdaMarginYear1 (calc inp) = NaN"
    using z(6) by (simp add: calc_fields zero_div_zero js_mul_def)
  have "\<forall>j\<in>set [1..<length (flows (calc inp))].
      \<not> js_gt (cumulativeCashFlow (flows (calc inp) ! j)) (Fin 0)"
  proof
    fix j
    assume "j \<in> set [1..<length (flows (calc inp))]"
    then have "j < length (flows (calc inp))"
      by simp
    then have "flows (calc inp) ! j \<in> set (flows (calc inp))"
      by (rule nth_mem)
    then have "is_zero (cumulativeCashFlow (flows (calc inp) ! j))"
      using zero_capacity_rows [OF assms] by blast
    then show "\<not> js_gt (cumulativeCashFlow (flows (calc inp) ! j)) (Fin 0)"
      by (rule zero_not_gt)
  qed
  then have "calc_payback (flows (calc inp)) = num PROJECT_LIFE"
    by (rule calc_payback_none)
  then show "payback (calc inp) = Fin 12"
    by (simp add: payback_flows num_def PROJECT_LIFE_def)
  have "\<forall>cf\<in>set (map (\<lambda>yr. Math_round (netCF_at inp ?c yr)) [0..<Suc PROJECT_LIFE]). is_zero cf"
    using zero_capacity_year(6) [OF assms] by (auto intro!: zero_round)
  then show "irr (calc inp) = Fin 0.1"
    unfolding irr_calc by (rule calcIRR_zeros)
qed

text \<open>A loan tenor of zero, a debt ratio of 100%, and a net revenue of zero.\<close>

lemma zero_tenor_rows:
  assumes "loanTenor inp \<le> 0" and "r \<in> set (flows (calc inp))"
  shows "debtService r = Fin 0"
proof -
  obtain yr where r: "r = row_at inp yr"
    using assms(2) unfolding flows_calc by auto
  have "debtSvc_at inp (capexPerKwh inp) yr = Fin 0"
    using assms(1) by (simp add: debtSvc_at_def no_debt_no_payment)
  then show ?thesis
    unfolding r by (simp add: row_at_def)
qed

lemma full_debt_equity:
  assumes "js_eq (debtRatio inp) (Fin 1)" and "isFinite (totalCapex_of inp c)"
  shows "debt_of inp c = totalCapex_of inp c" "equity_of inp c = Fin 0"
proof -
  have d: "debtRatio inp = Fin 1"
    using assms(1) by (cases "debtRatio inp") (simp_all add: js_eq_def)
  show e: "debt_of inp c = totalCapex_of inp c"
    using assms(2) unfolding debt_of_def d
    by (cases "totalCapex_of inp c") (simp_all add: js_mul_def signed_zero_def)
  show "equity_of inp c = Fin 0"
    using assms(2) unfolding equity_of_def e
    by (cases "totalCapex_of inp c") (simp_all add: js_sub_def)
qed

lemma zero_revenue_margin:
  assumes "is_zero n"
  shows "\<not> isFinite (js_mul (js_div (js_sub n om) n) (Fin 100))"
proof -
  have "\<not> isFinite (js_div x n)" for x
    using assms by (cases x; cases n) (simp_all add: js_div_def signed_inf_def)
  then have "\<not> isFinite (js_div (js_sub n om) n)" .
  then show ?thesis
    by (cases "js_div (js_sub n om) n") (simp_all add: js_mul_def signed_inf_def)
qed

text \<open>
  Claim C9, as amended. \<open>calc\<close> returns a result for every input, and \<open>irr\<close> is a
  finite number in every result, but the other outputs of a degenerate input are not
  all finite. With a loan tenor of zero the annual payment and every \<open>debtService\<close>
  field are 0. At zero capacity, with a finite capital cost, debt ratio and fee, every
  derived amount and every field of the table is a zero, \<open>irr\<close> is 0.1, \<open>payback\<close> is
  12, \<open>npv\<close> is a zero when the discount rate is finite and other than -1, and
  \<open>ebitdaMarginYear1\<close> is NaN. With a debt ratio of 100% and a finite total capital
  cost the debt is the total capital cost and the equity is 0. Whenever the net revenue
  is a zero, \<open>ebitdaMarginYear1\<close> is NaN or infinite.
\<close>

theorem degenerate_inputs_outputs:
  "isFinite (irr (calc inp))
   \<and> (loanTenor inp \<le> 0 \<longrightarrow>
        annualDebtPmt (calc inp) = Fin 0 \<and> (\<forall>r\<in>set (flows (calc inp)). debtService r = Fin 0))
   \<and> (is_zero (bessSize inp) \<and> isFinite (capexPerKwh inp) \<and> isFinite (debtRatio inp) \<and>
      isFinite (aggregatorFeePercent inp) \<longrightarrow>
        is_zero (powerKw (calc inp)) \<and> is_zero (totalCapex (calc inp)) \<and>
        is_zero (equity (calc inp)) \<and> is_zero (debt (calc inp)) \<and>
        is_zero (annualOm (calc inp)) \<and> is_zero (grossRevenue (calc inp)) \<and>
        is_zero (feeAnnual (calc inp)) \<and> is_zero (netRevenue (calc inp)) \<and>
        annualDebtPmt (calc inp) = Fin 0 \<and>
        (\<forall>r\<in>set (flows (calc inp)).
           is_zero (revenue r) \<and> is_zero (aggregatorFee r) \<and> is_zero (opex r) \<and>
           is_zero (ebitda r) \<and> debtService r = Fin 0 \<and> is_zero (netCashFlow r) \<and>
           is_zero (cumulativeCashFlow r)) \<and>
        irr (calc inp) = Fin 0.1 \<and> payback (calc inp) = Fin 12 \<and>
        ebitdaMarginYear1 (calc inp) = NaN \<and>
        (isFinite (discountRate inp) \<and> discountRate inp \<noteq> Fin (- 1) \<longrightarrow>
           is_zero (npv (calc inp))))
   \<and> (js_eq (debtRatio inp) (Fin 1) \<and> isFinite (totalCapex (calc inp)) \<longrightarrow>
        debt (calc inp) = totalCapex (calc inp) \<and> equity (calc inp) = Fin 0)
   \<and> (is_zero (netRevenue (calc inp)) \<longrightarrow> \<not> isFinite (ebitdaMarginYear1 (calc inp)))"
proof (intro conjI impI)
  show "isFinite (irr (calc inp))"
    unfolding irr_calc by (rule fin_calcIRR)
next
  assume t: "loanTenor inp \<le> 0"
  then show "annualDebtPmt (calc inp) = Fin 0"
    by (simp add: calc_fields no_debt_no_payment)
  show "\<forall>r\<in>set (flows (calc inp)). debtService r = Fin 0"
    using zero_tenor_rows [OF t] by blast
next
  assume "is_zero (bessSize inp) \<and> isFinite (capexPerKwh inp) \<and> isFinite (debtRatio inp) \<and>
      isFinite (aggregatorFeePercent inp)"
  then have a: "is_zero (bessSize inp)" "isFinite (capexPerKwh inp)" "isFinite (debtRatio inp)"
    "isFinite (aggregatorFeePercent inp)"
    by simp_all
  note z = zero_capacity_amounts [OF a] and r = zero_capacity_results [OF a]
  show "is_zero (powerKw (calc inp))" "is_zero (totalCapex (calc inp))"
    "is_zero (equity (calc inp))" "is_zero (debt (calc inp))" "is_zero (annualOm (calc inp))"
    "is_zero (grossRevenue (calc inp))" "is_zero (feeAnnual (calc inp))"
    "is_zero (netRevenue (calc inp))" "annualDebtPmt (calc inp) = Fin 0"
    using z by (simp_all add: calc_fields)
  show "\<forall>r\<in>set (flows (calc inp)).
           is_zero (revenue r) \<and> is_zero (aggregatorFee r) \<and> is_zero (opex r) \<and>
           is_zero (ebitda r) \<and> debtService r = Fin 0 \<and> is_zero (netCashFlow r) \<and>
           is_zero (cumulativeCashFlow r)"
    using zero_capacity_rows [OF a] by blast
  show "irr (calc inp) = Fin 0.1" "payback (calc inp) = Fin 12"
    "ebitdaMarginYear1 (calc inp) = NaN"
    using r by simp_all
  assume "isFinite (discountRate inp) \<and> discountRate inp \<noteq> Fin (- 1)"
  then show "is_zero (npv (calc inp))"
    unfolding npv_calc using a by (intro zero_capacity_npv) simp_all
next
  assume "js_eq (debtRatio inp) (Fin 1) \<and> isFinite (totalCapex (calc inp))"
  then have "js_eq (debtRatio inp) (Fin 1)" "isFinite (totalCapex_of inp (capexPerKwh inp))"
    by (simp_all add: calc_fields)
  then show "debt (calc inp) = totalCapex (calc inp)" "equity (calc inp) = Fin 0"
    using full_debt_equity by (simp_all add: calc_fields)
next
  assume "is_zero (netRevenue (calc inp))"
  then show "\<not> isFinite (ebitdaMarginYear1 (calc inp))"
    by (simp add: calc_fields zero_revenue_margin)
qed

lemma zero_capacity_inputs_fields:
  "is_zero (bessSize zero_capacity_inputs)" "isFinite (capexPerKwh zero_capacity_inputs)"
  "isFinite (debtRatio zero_capacity_inputs)" "isFinite (aggregatorFeePercent zero_capacity_inputs)"
  "isFinite (discountRate zero_capacity_inputs)" "discountRate zero_capacity_inputs \<noteq> Fin (- 1)"
  by (simp_all add: zero_capacity_inputs_def default_inputs_def)

lemma degenerate_inputs_fields:
  "loanTenor zero_tenor_inputs = 0"
  "debtRatio full_debt_inputs = Fin 1"
  "totalCapex (calc full_debt_inputs) = Fin 87500"
  "netRevenue (calc full_fee_inputs) = Fin 0"
  by (simp_all add: calc_fields model_defs js_eval zero_tenor_inputs_def full_debt_inputs_def
      full_fee_inputs_def default_inputs_def)

text \<open>At zero capacity the margin is \<open>0 / 0\<close>.\<close>

theorem degenerate_inputs_counterexample:
  "bessSize zero_capacity_inputs = Fin 0
   \<and> \<not> isFinite (ebitdaMarginYear1 (calc zero_capacity_inputs))"
  by (simp add: calc_fields model_defs js_eval js_div_def js_mul_def zero_capacity_inputs_def
      default_inputs_def)

theorem degenerate_inputs_outputs_witness:
  "irr (calc zero_capacity_inputs) = Fin 0.1
   \<and> payback (calc zero_capacity_inputs) = Fin 12
   \<and> ebitdaMarginYear1 (calc zero_capacity_inputs) = NaN
   \<and> is_zero (npv (calc zero_capacity_inputs))
   \<and> annualDebtPmt (calc zero_tenor_inputs) = Fin 0
   \<and> equity (calc full_debt_inputs) = Fin 0
   \<and> \<not> isFinite (ebitdaMarginYear1 (calc full_fee_inputs))"
  using degenerate_inputs_outputs [of zero_capacity_inputs]
    degenerate_inputs_outputs [of zero_tenor_inputs]
    degenerate_inputs_outputs [of full_debt_inputs]
    degenerate_inputs_outputs [of full_fee_inputs]
  by (simp add: zero_capacity_inputs_fields degenerate_inputs_fields js_eq_def)

section \<open>The sweep over the capital cost\<close>













end
